theory Spec2Isabelle
  imports Main "HOL-Library.AList"
begin

section \<open>Python values\<close>

text \<open>
  The packager \<^verbatim>\<open>convert_to_json.py\<close> moves Python values from loaders into one nested
  dictionary and writes it out as JSON. Values are modelled by the datatype \<open>pyval\<close>.
  A dictionary is an association list in insertion order, without repeated keys when it
  is built by the operations below. A float is never computed with: it is kept as the
  pair of the two observations the program makes of it, its \<^verbatim>\<open>repr\<close> text and its
  truncation to an integer (absent for nan and the infinities). \<open>POther\<close> and \<open>KOther\<close>
  stand for objects that \<^verbatim>\<open>json.dump\<close> cannot serialise.
\<close>

datatype pyfloat = Float (repr: string) (trunc: "int option")

datatype pykey = KStr string | KInt int | KFloat pyfloat | KBool bool | KNone | KOther

datatype pyval =
    PNone
  | PBool bool
  | PInt int
  | PFloat pyfloat
  | PStr string
  | PList "pyval list"
  | PDict "(pykey \<times> pyval) list"
  | POther

datatype exn =
    FileNotFoundError
  | KeyError
  | TypeError
  | ValueError
  | AttributeError
  | OSError
  | OtherError

type_synonym dict = "(pykey \<times> pyval) list"

definition and_then :: "exn + 'a \<Rightarrow> ('a \<Rightarrow> exn + 'b) \<Rightarrow> exn + 'b" where
  "and_then m f = (case m of Inl e \<Rightarrow> Inl e | Inr x \<Rightarrow> f x)"

text \<open>\<^verbatim>\<open>d[k] = v\<close>: an existing key keeps its place, a new key goes to the end.\<close>

definition dict_set :: "dict \<Rightarrow> pykey \<Rightarrow> pyval \<Rightarrow> dict" where
  "dict_set d k v = AList.update k v d"

text \<open>\<^verbatim>\<open>d.get(k, default)\<close> on a dictionary.\<close>

definition dict_get :: "dict \<Rightarrow> pykey \<Rightarrow> pyval \<Rightarrow> pyval" where
  "dict_get d k dflt = (case map_of d k of None \<Rightarrow> dflt | Some v \<Rightarrow> v)"

definition dict_keys :: "dict \<Rightarrow> pykey list" where
  "dict_keys d = map fst d"

definition dict_values :: "dict \<Rightarrow> pyval list" where
  "dict_values d = map snd d"

text \<open>A dictionary display \<^verbatim>\<open>{k1: v1, **d, ...}\<close>: the items are inserted left to right.\<close>

definition dict_display :: "(pykey \<times> pyval) list \<Rightarrow> dict" where
  "dict_display items = fold (\<lambda>kv d. dict_set d (fst kv) (snd kv)) items []"

text \<open>\<^verbatim>\<open>x.get(k, default)\<close>: only a dictionary has the method.\<close>

fun py_get :: "pyval \<Rightarrow> pykey \<Rightarrow> pyval \<Rightarrow> exn + pyval" where
  "py_get (PDict d) k dflt = Inr (dict_get d k dflt)"
| "py_get _ k dflt = Inl AttributeError"

text \<open>\<^verbatim>\<open>len(x)\<close>.\<close>

fun py_len :: "pyval \<Rightarrow> exn + nat" where
  "py_len (PList xs) = Inr (length xs)"
| "py_len (PStr s) = Inr (length s)"
| "py_len (PDict d) = Inr (length d)"
| "py_len _ = Inl TypeError"

text \<open>\<^verbatim>\<open>x[:n]\<close>: lists and strings can be sliced; a dictionary raises.\<close>

fun py_slice :: "pyval \<Rightarrow> nat \<Rightarrow> exn + pyval" where
  "py_slice (PList xs) n = Inr (PList (take n xs))"
| "py_slice (PStr s) n = Inr (PStr (take n s))"
| "py_slice _ n = Inl TypeError"

text \<open>Truth value of an object, as \<^verbatim>\<open>if x\<close> tests it.\<close>

fun py_truthy :: "pyval \<Rightarrow> bool" where
  "py_truthy PNone = False"
| "py_truthy (PBool b) = b"
| "py_truthy (PInt i) = (i \<noteq> 0)"
| "py_truthy (PFloat f) = (trunc f \<noteq> Some 0 \<or> repr f \<notin> {''0.0'', ''-0.0''})"
| "py_truthy (PStr s) = (s \<noteq> [])"
| "py_truthy (PList xs) = (xs \<noteq> [])"
| "py_truthy (PDict d) = (d \<noteq> [])"
| "py_truthy POther = True"

subsection \<open>Decimal text of an integer\<close>

definition digit_char :: "nat \<Rightarrow> char" where
  "digit_char d = ''0123456789'' ! d"

fun digits :: "nat \<Rightarrow> string" where
  "digits n = (if n < 10 then [digit_char n] else digits (n div 10) @ [digit_char (n mod 10)])"

declare digits.simps [simp del]

definition str_of_int :: "int \<Rightarrow> string" where
  "str_of_int i = (if i < 0 then CHR ''-'' # digits (nat (- i)) else digits (nat i))"

section \<open>Tables\<close>

text \<open>
  A table read by \<^verbatim>\<open>pd.read_csv(path, sep='\t')\<close> is its header and its rows of parsed
  cells. A missing cell is the float nan. A row shorter than the header is padded with
  nan by the parser, which \<open>cell_at\<close> writes out.
\<close>

datatype cell = CStr string | CInt int | CFloat pyfloat | CBool bool

record dataframe =
  columns :: "string list"
  rows :: "cell list list"

definition nan :: pyfloat where
  "nan = Float ''nan'' None"

fun is_nan :: "cell \<Rightarrow> bool" where
  "is_nan (CFloat f) = (repr f = ''nan'')"
| "is_nan _ = False"

definition cell_at :: "cell list \<Rightarrow> nat \<Rightarrow> cell" where
  "cell_at r i = (if i < length r then r ! i else CFloat nan)"

fun column_index :: "string list \<Rightarrow> string \<Rightarrow> nat option" where
  "column_index [] name = None"
| "column_index (c # cs) name =
     (if c = name then Some 0 else map_option Suc (column_index cs name))"

text \<open>\<^verbatim>\<open>df[name]\<close>: the column, or KeyError when the header lacks the name.\<close>

definition df_col :: "dataframe \<Rightarrow> string \<Rightarrow> exn + cell list" where
  "df_col df name =
     (case column_index (columns df) name of
        None \<Rightarrow> Inl KeyError
      | Some i \<Rightarrow> Inr (map (\<lambda>r. cell_at r i) (rows df)))"

text \<open>\<^verbatim>\<open>.fillna('')\<close>, \<^verbatim>\<open>.astype(str)\<close> and \<^verbatim>\<open>.tolist()\<close> on a column.\<close>

definition fillna :: "cell list \<Rightarrow> string \<Rightarrow> cell list" where
  "fillna col s = map (\<lambda>c. if is_nan c then CStr s else c) col"

fun cell_str :: "cell \<Rightarrow> string" where
  "cell_str (CStr s) = s"
| "cell_str (CInt i) = str_of_int i"
| "cell_str (CFloat f) = repr f"
| "cell_str (CBool b) = (if b then ''True'' else ''False'')"

definition astype_str :: "cell list \<Rightarrow> string list" where
  "astype_str col = map cell_str col"

definition str_tolist :: "string list \<Rightarrow> pyval" where
  "str_tolist col = PList (map PStr col)"

section \<open>The environment of a run\<close>

text \<open>
  The on-disk formats are read through library calls; a run is determined by what those
  calls return or raise. \<open>np_tolist p\<close> is the outcome of
  \<^verbatim>\<open>np.load(p, allow_pickle=True).tolist()\<close>, \<open>np_item p\<close> that of
  \<^verbatim>\<open>np.load(p, allow_pickle=True).item()\<close>, \<open>read_csv p\<close> that of
  \<^verbatim>\<open>pd.read_csv(p, sep='\t')\<close>. \<open>can_write p\<close> says whether \<^verbatim>\<open>open(p, "w")\<close> and the
  writes to it go through; \<open>now\<close> is \<^verbatim>\<open>pd.Timestamp.now().isoformat()\<close>.
\<close>

text \<open>
  A loaded scaler object: for each attribute the program probes with \<^verbatim>\<open>hasattr\<close>,
  \<open>None\<close> when the object lacks it, otherwise the outcome of the conversion applied to it
  (\<^verbatim>\<open>.tolist()\<close>, or \<^verbatim>\<open>int(...)\<close> for the sample count).
\<close>

record scaler =
  mean_attr :: "(exn + pyval) option"
  scale_attr :: "(exn + pyval) option"
  var_attr :: "(exn + pyval) option"
  n_samples_seen_attr :: "(exn + int) option"

record env =
  np_tolist :: "string \<Rightarrow> exn + pyval"
  np_item :: "string \<Rightarrow> exn + pyval"
  read_csv :: "string \<Rightarrow> exn + dataframe"
  joblib_load :: "string \<Rightarrow> exn + scaler"
  can_write :: "string \<Rightarrow> bool"
  now :: string

text \<open>
  Console output is kept where a property speaks of it: the lines of the question loader,
  the validation report and the messages around failure. Each is a constructor of \<open>line\<close>
  carrying the values interpolated into the printed text. Progress lines of the other
  loaders are left out; whatever they evaluate that can raise is kept.
\<close>

datatype line =
    QuestionsLoaded nat
  | QuestionsLang string nat
  | QuestionsFallback string
  | QuestionsNotFound
  | ValidJobTranslations bool
  | ValidJobCodes bool
  | ValidScaledFeatures bool
  | ErrorDuringConversion exn
  | Traceback exn
  | CreatingCompact
  | CompactSaved
  | CompactFailed exn
  | AllComplete
  | ConversionFailed

section \<open>Loaders\<close>

definition languages :: "string list" where
  "languages = [''en'', ''zh'', ''es'', ''fr'', ''ru'', ''ar'']"

subsection \<open>\<^verbatim>\<open>load_questions\<close>\<close>

text \<open>
  The loop over the six languages. In the fallback branch the message is printed before
  the English column is read, so it is on the console also when that read raises.
\<close>

fun load_questions_loop ::
  "dataframe \<Rightarrow> string list \<Rightarrow> dict \<Rightarrow> line list \<times> (exn + dict)" where
  "load_questions_loop df [] questions_dict = ([], Inr questions_dict)"
| "load_questions_loop df (lang # langs) questions_dict =
     (if lang \<in> set (columns df) then
        (case df_col df lang of
           Inl e \<Rightarrow> ([], Inl e)
         | Inr c \<Rightarrow>
             let questions = astype_str (fillna c '''');
                 (out, r) = load_questions_loop df langs
                              (dict_set questions_dict (KStr lang) (str_tolist questions))
             in (QuestionsLang lang (length questions) # out, r))
      else
        (case df_col df ''en'' of
           Inl e \<Rightarrow> ([QuestionsFallback lang], Inl e)
         | Inr c \<Rightarrow>
             let (out, r) = load_questions_loop df langs
                              (dict_set questions_dict (KStr lang)
                                 (str_tolist (astype_str (fillna c ''''))))
             in (QuestionsFallback lang # out, r)))"

definition load_questions :: "env \<Rightarrow> line list \<times> (exn + pyval \<times> nat)" where
  "load_questions e =
     (case read_csv e ''questions.tsv'' of
        Inl FileNotFoundError \<Rightarrow> ([QuestionsNotFound], Inr (PDict [], 0))
      | Inl err \<Rightarrow> ([], Inl err)
      | Inr questions_df \<Rightarrow>
          (case load_questions_loop questions_df languages [] of
             (out, Inl err) \<Rightarrow> (QuestionsLoaded (length (rows questions_df)) # out, Inl err)
           | (out, Inr questions_dict) \<Rightarrow>
               (QuestionsLoaded (length (rows questions_df)) # out,
                Inr (PDict questions_dict, length (rows questions_df)))))"

subsection \<open>\<^verbatim>\<open>load_multilingual_jobs\<close>\<close>

definition job_path :: "string \<Rightarrow> string" where
  "job_path lang = ''job_'' @ lang @ ''.npy''"

text \<open>
  One pass of the loop body per language. Only \<^verbatim>\<open>FileNotFoundError\<close> is caught; the
  length and the three-element sample are evaluated for the progress lines and raise on
  a payload that has no length or cannot be sliced.
\<close>

fun load_jobs_loop :: "env \<Rightarrow> string list \<Rightarrow> dict \<Rightarrow> exn + dict" where
  "load_jobs_loop e [] job_translations = Inr job_translations"
| "load_jobs_loop e (lang # langs) job_translations =
     (case np_tolist e (job_path lang) of
        Inl FileNotFoundError \<Rightarrow>
          load_jobs_loop e langs (dict_set job_translations (KStr lang) (PList []))
      | Inl err \<Rightarrow> Inl err
      | Inr job_list \<Rightarrow>
          and_then (py_len job_list) (\<lambda>n.
          and_then (if n > 0 then py_slice job_list 3 else Inr PNone) (\<lambda>_.
            load_jobs_loop e langs (dict_set job_translations (KStr lang) job_list))))"

text \<open>\<^verbatim>\<open>d[k]\<close> on a dictionary.\<close>

definition dict_item :: "dict \<Rightarrow> pykey \<Rightarrow> exn + pyval" where
  "dict_item d k = (case map_of d k of None \<Rightarrow> Inl KeyError | Some v \<Rightarrow> Inr v)"

fun job_lengths :: "dict \<Rightarrow> string list \<Rightarrow> exn + nat list" where
  "job_lengths job_translations [] = Inr []"
| "job_lengths job_translations (lang # langs) =
     (if KStr lang \<in> set (dict_keys job_translations) then
        and_then (dict_item job_translations (KStr lang)) (\<lambda>v.
        and_then (py_len v) (\<lambda>n.
        and_then (job_lengths job_translations langs) (\<lambda>ns. Inr (n # ns))))
      else job_lengths job_translations langs)"

definition load_multilingual_jobs :: "env \<Rightarrow> exn + dict" where
  "load_multilingual_jobs e =
     and_then (load_jobs_loop e languages []) (\<lambda>job_translations.
     and_then (job_lengths job_translations languages) (\<lambda>lengths.
       Inr job_translations))"

subsection \<open>\<^verbatim>\<open>load_base_job_data\<close>\<close>

text \<open>
  \<^verbatim>\<open>np.array(x).shape\<close> is evaluated for the progress line of the PCA weights when the
  payload is truthy. NumPy (1.24 and later) raises \<^verbatim>\<open>ValueError\<close> on nested lists of
  unequal shape; \<open>np_shape\<close> is the shape, or \<open>None\<close> where it raises.
\<close>

fun np_shape :: "pyval \<Rightarrow> nat list option" where
  "np_shape (PList xs) =
     (case map np_shape xs of
        [] \<Rightarrow> Some [0]
      | s # ss \<Rightarrow>
          (case s of
             None \<Rightarrow> None
           | Some sh \<Rightarrow> if \<forall>t \<in> set ss. t = s then Some (length xs # sh) else None))"
| "np_shape _ = Some []"

definition np_array_shape :: "pyval \<Rightarrow> exn + nat list" where
  "np_array_shape v = (case np_shape v of None \<Rightarrow> Inl ValueError | Some sh \<Rightarrow> Inr sh)"

definition load_job_codes :: "env \<Rightarrow> dict \<Rightarrow> exn + dict" where
  "load_job_codes e base_data =
     (case np_tolist e ''job_codes.npy'' of
        Inl FileNotFoundError \<Rightarrow> Inr (dict_set base_data (KStr ''job_codes'') (PList []))
      | Inl err \<Rightarrow> Inl err
      | Inr job_codes \<Rightarrow>
          and_then (py_len job_codes) (\<lambda>_.
          and_then (py_slice job_codes 5) (\<lambda>_.
            Inr (dict_set base_data (KStr ''job_codes'') job_codes))))"

definition load_pca_weights :: "env \<Rightarrow> dict \<Rightarrow> exn + dict" where
  "load_pca_weights e base_data =
     (case np_tolist e ''pca_weights.npy'' of
        Inl FileNotFoundError \<Rightarrow> Inr (dict_set base_data (KStr ''pca_weights'') (PList []))
      | Inl err \<Rightarrow> Inl err
      | Inr pca_weights \<Rightarrow>
          and_then (if py_truthy pca_weights then np_array_shape pca_weights else Inr []) (\<lambda>_.
            Inr (dict_set base_data (KStr ''pca_weights'') pca_weights)))"

definition load_scaled_features :: "env \<Rightarrow> dict \<Rightarrow> exn + dict" where
  "load_scaled_features e base_data =
     (case np_tolist e ''scaled_job_features.npy'' of
        Inl FileNotFoundError \<Rightarrow> Inr (dict_set base_data (KStr ''scaled_features'') (PList []))
      | Inl err \<Rightarrow> Inl err
      | Inr scaled_features \<Rightarrow>
          and_then (py_len scaled_features) (\<lambda>_.
            Inr (dict_set base_data (KStr ''scaled_features'') scaled_features)))"

definition load_base_job_data :: "env \<Rightarrow> exn + dict" where
  "load_base_job_data e =
     and_then (load_job_codes e []) (\<lambda>base_data.
     and_then (load_pca_weights e base_data) (\<lambda>base_data.
       load_scaled_features e base_data))"

subsection \<open>\<^verbatim>\<open>load_other_files\<close>\<close>

text \<open>Both blocks end in a bare \<^verbatim>\<open>except:\<close>, so every failure gives the empty mapping.\<close>

definition load_other_files :: "env \<Rightarrow> dict" where
  "load_other_files e =
     (let other_data = dict_set [] (KStr ''text_dict'')
            (case np_item e ''text_dict.npy'' of Inl err \<Rightarrow> PDict [] | Inr text_dict \<Rightarrow> text_dict)
      in dict_set other_data (KStr ''language_display'')
            (case np_item e ''language_display.npy'' of
               Inl err \<Rightarrow> PDict [] | Inr language_display \<Rightarrow> language_display))"

subsection \<open>\<^verbatim>\<open>convert_tsv_files\<close>\<close>

text \<open>
  \<^verbatim>\<open>int(x)\<close> on a cell. A text cell is parsed as an ASCII decimal with optional sign,
  blanks around it and single underscores between digits.
\<close>

definition is_space :: "char \<Rightarrow> bool" where
  "is_space c = (c = CHR '' '' \<or> (9 \<le> (of_char c :: nat) \<and> (of_char c :: nat) \<le> 13))"

definition is_digit :: "char \<Rightarrow> bool" where
  "is_digit c = (c \<in> set ''0123456789'')"

definition strip :: "string \<Rightarrow> string" where
  "strip s = rev (dropWhile is_space (rev (dropWhile is_space s)))"

fun digits_ok :: "string \<Rightarrow> bool" where
  "digits_ok [] = False"
| "digits_ok [c] = is_digit c"
| "digits_ok (c # d # cs) =
     (is_digit c \<and> (if d = CHR ''_'' then digits_ok cs else digits_ok (d # cs)))"

definition nat_of_digits :: "string \<Rightarrow> nat" where
  "nat_of_digits s = foldl (\<lambda>n c. 10 * n + ((of_char c :: nat) - 48)) 0 (filter is_digit s)"

definition int_of_str :: "string \<Rightarrow> exn + int" where
  "int_of_str s =
     (let t = strip s;
          (sign, body) = (case t of
                            c # b \<Rightarrow> if c = CHR ''-'' then (- 1, b)
                                     else if c = CHR ''+'' then (1, b) else (1, t)
                          | [] \<Rightarrow> (1, t))
      in if digits_ok body then Inr (sign * int (nat_of_digits body)) else Inl ValueError)"

fun py_int :: "cell \<Rightarrow> exn + int" where
  "py_int (CInt i) = Inr i"
| "py_int (CFloat f) = (case trunc f of None \<Rightarrow> Inl ValueError | Some i \<Rightarrow> Inr i)"
| "py_int (CBool b) = Inr (if b then 1 else 0)"
| "py_int (CStr s) = int_of_str s"

fun cell_val :: "cell \<Rightarrow> pyval" where
  "cell_val (CStr s) = PStr s"
| "cell_val (CInt i) = PInt i"
| "cell_val (CFloat f) = PFloat f"
| "cell_val (CBool b) = PBool b"

text \<open>\<^verbatim>\<open>row[name]\<close> and \<^verbatim>\<open>row[1:].tolist()\<close> on a row of \<^verbatim>\<open>iterrows()\<close>.\<close>

definition row_item :: "dataframe \<Rightarrow> cell list \<Rightarrow> string \<Rightarrow> exn + cell" where
  "row_item df row name =
     (case column_index (columns df) name of
        None \<Rightarrow> Inl KeyError
      | Some i \<Rightarrow> Inr (cell_at row i))"

definition row_tail :: "dataframe \<Rightarrow> cell list \<Rightarrow> pyval" where
  "row_tail df row = PList (map (\<lambda>i. cell_val (cell_at row i)) [1..<length (columns df)])"

fun norms_loop :: "dataframe \<Rightarrow> cell list list \<Rightarrow> dict \<Rightarrow> exn + dict" where
  "norms_loop df [] norms_json = Inr norms_json"
| "norms_loop df (row # rest) norms_json =
     and_then (row_item df row ''group'') (\<lambda>g.
     and_then (py_int g) (\<lambda>group.
       norms_loop df rest (dict_set norms_json (KInt group) (row_tail df row))))"

definition load_norms :: "env \<Rightarrow> string \<Rightarrow> string \<Rightarrow> dict \<Rightarrow> exn + dict" where
  "load_norms e path key tsv_data =
     (case read_csv e path of
        Inl FileNotFoundError \<Rightarrow> Inr (dict_set tsv_data (KStr key) (PDict []))
      | Inl err \<Rightarrow> Inl err
      | Inr norms \<Rightarrow>
          and_then (norms_loop norms (rows norms) []) (\<lambda>norms_json.
            Inr (dict_set tsv_data (KStr key) (PDict norms_json))))"

text \<open>\<^verbatim>\<open>weights.values.tolist()\<close>.\<close>

definition values_tolist :: "dataframe \<Rightarrow> pyval" where
  "values_tolist df =
     PList (map (\<lambda>row. PList (map (\<lambda>i. cell_val (cell_at row i)) [0..<length (columns df)]))
              (rows df))"

definition load_weights :: "env \<Rightarrow> dict \<Rightarrow> exn + dict" where
  "load_weights e tsv_data =
     (case read_csv e ''weightsB5.tsv'' of
        Inl FileNotFoundError \<Rightarrow> Inr (dict_set tsv_data (KStr ''weights'') (PList []))
      | Inl err \<Rightarrow> Inl err
      | Inr weights \<Rightarrow> Inr (dict_set tsv_data (KStr ''weights'') (values_tolist weights)))"

definition convert_tsv_files :: "env \<Rightarrow> exn + dict" where
  "convert_tsv_files e =
     and_then (load_norms e ''meanNorms.tsv'' ''mean_norms'' []) (\<lambda>tsv_data.
     and_then (load_norms e ''sdNorms.tsv'' ''sd_norms'' tsv_data) (\<lambda>tsv_data.
       load_weights e tsv_data))"

subsection \<open>\<^verbatim>\<open>load_scaler\<close>\<close>

definition attr_or :: "(exn + 'a) option \<Rightarrow> 'a \<Rightarrow> exn + 'a" where
  "attr_or a dflt = (case a of None \<Rightarrow> Inr dflt | Some r \<Rightarrow> r)"

definition load_scaler :: "env \<Rightarrow> exn + pyval" where
  "load_scaler e =
     (case joblib_load e ''your_scaler.pkl'' of
        Inl FileNotFoundError \<Rightarrow> Inr (PDict [])
      | Inl err \<Rightarrow> Inl err
      | Inr scaler \<Rightarrow>
          and_then (attr_or (mean_attr scaler) (PList [])) (\<lambda>m.
          and_then (attr_or (scale_attr scaler) (PList [])) (\<lambda>s.
          and_then (attr_or (var_attr scaler) (PList [])) (\<lambda>v.
          and_then (attr_or (n_samples_seen_attr scaler) 0) (\<lambda>n.
            Inr (PDict (dict_display
              [(KStr ''mean'', m),
               (KStr ''scale'', s),
               (KStr ''var'', v),
               (KStr ''n_samples_seen'', PInt n),
               (KStr ''feature_names'',
                  PList (map PStr [''Neuroticism'', ''Extraversion'', ''Openness'',
                                   ''Agreeableness'', ''Conscientiousness'']))])))))))"

section \<open>Static data\<close>

text \<open>
  The registry of \<^verbatim>\<open>get_translation_texts\<close> maps eight semantic keys to the six
  languages. Its literals are mostly outside ASCII and no property depends on their
  content, so they enter as a parameter: \<open>txt key lang\<close> is the literal stored under
  \<open>key\<close> for \<open>lang\<close> (a string, or a list of five strings for \<open>trait_names\<close>).
\<close>

type_synonym literals = "string \<Rightarrow> string \<Rightarrow> pyval"

definition text_keys :: "string list" where
  "text_keys = [''titles'', ''trait_names'', ''disclaimer'', ''ideal_job_prompt'',
                ''ideal_job_warning'', ''ideal_job_result'', ''closest_text'', ''furthest_text'']"

definition get_translation_texts :: "literals \<Rightarrow> pyval" where
  "get_translation_texts txt =
     PDict (dict_display (map (\<lambda>key.
       (KStr key, PDict (dict_display (map (\<lambda>lang. (KStr lang, txt key lang)) languages))))
       text_keys))"

definition get_metadata :: "env \<Rightarrow> dict" where
  "get_metadata e = dict_display
     [(KStr ''version'', PStr ''2.0.0''),
      (KStr ''created_at'', PStr (now e)),
      (KStr ''data_sources'', PList (map PStr
         [''job_en.npy, job_zh.npy, job_es.npy, job_fr.npy, job_ru.npy, job_ar.npy'',
          ''job_codes.npy'',
          ''scaled_job_features.npy'',
          ''pca_weights.npy'',
          ''meanNorms.tsv'',
          ''sdNorms.tsv'',
          ''questions.tsv'',
          ''weightsB5.tsv'',
          ''your_scaler.pkl''])),
      (KStr ''languages_supported'', PList (map PStr [''en'', ''zh'', ''es'', ''fr'', ''ru'', ''ar''])),
      (KStr ''n_jobs'', PInt 263),
      (KStr ''model_info'', PDict (dict_display
         [(KStr ''name'', PStr ''JobRecommenderMLP''),
          (KStr ''input_dim'', PInt 5),
          (KStr ''hidden_dim'', PInt 128),
          (KStr ''output_dim'', PInt 263)]))]"

definition norm_group :: "string \<Rightarrow> string \<Rightarrow> string \<Rightarrow> pyval" where
  "norm_group gender age_range description = PDict (dict_display
     [(KStr ''gender'', PStr gender),
      (KStr ''age_range'', PStr age_range),
      (KStr ''description'', PStr description)])"

definition norm_groups :: pyval where
  "norm_groups = PDict (dict_display
     [(KInt 1, norm_group ''Female'' ''<35'' ''Female under 35''),
      (KInt 2, norm_group ''Female'' ''>=35'' ''Female 35 and over''),
      (KInt 3, norm_group ''Male'' ''<35'' ''Male under 35''),
      (KInt 4, norm_group ''Male'' ''>=35'' ''Male 35 and over'')])"

section \<open>JSON files\<close>

text \<open>
  A JSON file is kept as the value it denotes, not as text: indentation, separators and
  \<^verbatim>\<open>ensure_ascii\<close> do not change that value. An object is the list of its members as
  written, so that two members may carry the same name. \<^verbatim>\<open>json.dump\<close> turns the keys
  of a dictionary into strings and raises \<^verbatim>\<open>TypeError\<close> on anything it cannot
  serialise; \<^verbatim>\<open>json.load\<close> builds dictionaries, the last of repeated members winning.
\<close>

datatype json =
    JNull
  | JBool bool
  | JInt int
  | JFloat pyfloat
  | JStr string
  | JArr "json list"
  | JObj "(string \<times> json) list"

fun key_str :: "pykey \<Rightarrow> string option" where
  "key_str (KStr s) = Some s"
| "key_str (KInt i) = Some (str_of_int i)"
| "key_str (KFloat f) = Some (repr f)"
| "key_str (KBool b) = Some (if b then ''true'' else ''false'')"
| "key_str KNone = Some ''null''"
| "key_str KOther = None"

fun those_items :: "(string option \<times> json option) list \<Rightarrow> (string \<times> json) list option" where
  "those_items [] = Some []"
| "those_items ((Some k, Some j) # rest) = map_option ((#) (k, j)) (those_items rest)"
| "those_items (_ # rest) = None"

fun json_dump :: "pyval \<Rightarrow> json option" where
  "json_dump PNone = Some JNull"
| "json_dump (PBool b) = Some (JBool b)"
| "json_dump (PInt i) = Some (JInt i)"
| "json_dump (PFloat f) = Some (JFloat f)"
| "json_dump (PStr s) = Some (JStr s)"
| "json_dump (PList xs) = map_option JArr (those (map json_dump xs))"
| "json_dump (PDict d) =
     map_option JObj (those_items (map (\<lambda>(k, v). (key_str k, json_dump v)) d))"
| "json_dump POther = None"

fun json_load :: "json \<Rightarrow> pyval" where
  "json_load JNull = PNone"
| "json_load (JBool b) = PBool b"
| "json_load (JInt i) = PInt i"
| "json_load (JFloat f) = PFloat f"
| "json_load (JStr s) = PStr s"
| "json_load (JArr js) = PList (map json_load js)"
| "json_load (JObj kvs) = PDict (dict_display (map (\<lambda>(k, j). (KStr k, json_load j)) kvs))"

datatype content = Json json | Truncated

type_synonym fs = "string \<Rightarrow> content option"

text \<open>
  \<^verbatim>\<open>with open(path, "w") as f: json.dump(v, f, ...)\<close>. When the file cannot be opened it
  is left as it was; when serialisation raises part-way the file holds a fragment.
\<close>

definition write_json :: "env \<Rightarrow> fs \<Rightarrow> string \<Rightarrow> pyval \<Rightarrow> fs \<times> (exn + unit)" where
  "write_json e files path v =
     (if \<not> can_write e path then (files, Inl OSError)
      else (case json_dump v of
              None \<Rightarrow> (files(path \<mapsto> Truncated), Inl TypeError)
            | Some j \<Rightarrow> (files(path \<mapsto> Json j), Inr ())))"

text \<open>\<^verbatim>\<open>with open(path, "r") as f: json.load(f)\<close>.\<close>

definition read_json :: "fs \<Rightarrow> string \<Rightarrow> exn + pyval" where
  "read_json files path =
     (case files path of
        None \<Rightarrow> Inl FileNotFoundError
      | Some Truncated \<Rightarrow> Inl ValueError
      | Some (Json j) \<Rightarrow> Inr (json_load j))"

section \<open>The assembler: \<^verbatim>\<open>convert_all_data\<close>\<close>

text \<open>Console output together with a result or an exception.\<close>

definition quiet :: "exn + 'a \<Rightarrow> line list \<times> (exn + 'a)" where
  "quiet m = ([], m)"

definition say :: "line \<Rightarrow> line list \<times> (exn + unit)" where
  "say l = ([l], Inr ())"

definition then_out ::
  "line list \<times> (exn + 'a) \<Rightarrow> ('a \<Rightarrow> line list \<times> (exn + 'b)) \<Rightarrow> line list \<times> (exn + 'b)" where
  "then_out m f =
     (case m of
        (out, Inl err) \<Rightarrow> (out, Inl err)
      | (out, Inr x) \<Rightarrow> (case f x of (out', r) \<Rightarrow> (out @ out', r)))"

text \<open>\<^verbatim>\<open>list(d.keys())\<close> lists the keys as values.\<close>

fun key_val :: "pykey \<Rightarrow> pyval" where
  "key_val (KStr s) = PStr s"
| "key_val (KInt i) = PInt i"
| "key_val (KFloat f) = PFloat f"
| "key_val (KBool b) = PBool b"
| "key_val KNone = PNone"
| "key_val KOther = POther"

text \<open>Step 8 of \<^verbatim>\<open>convert_all_data\<close>: the dictionary display bound to \<^verbatim>\<open>complete_data\<close>.\<close>

definition build_complete_data ::
  "env \<Rightarrow> dict \<Rightarrow> dict \<Rightarrow> dict \<Rightarrow> pyval \<Rightarrow> nat \<Rightarrow> dict \<Rightarrow> pyval \<Rightarrow> pyval \<Rightarrow> exn + dict" where
  "build_complete_data e job_translations base_data other_data questions_dict n_questions
       tsv_data scaler_params translations =
     and_then (py_len (dict_get job_translations (KStr ''en'') (PList []))) (\<lambda>n_jobs.
       Inr (dict_display
         ([(KStr ''job_translations'', PDict job_translations),
           (KStr ''job_codes'', dict_get base_data (KStr ''job_codes'') (PList [])),
           (KStr ''pca_weights'', dict_get base_data (KStr ''pca_weights'') (PList [])),
           (KStr ''scaled_features'', dict_get base_data (KStr ''scaled_features'') (PList [])),
           (KStr ''job_names'', dict_get job_translations (KStr ''en'') (PList []))]
          @ other_data
          @ [(KStr ''questions'', questions_dict)]
          @ tsv_data
          @ [(KStr ''scaler_params'', scaler_params),
             (KStr ''translations'', translations),
             (KStr ''metadata'', PDict (dict_display
                (get_metadata e
                 @ [(KStr ''n_jobs'', PInt (int n_jobs)),
                    (KStr ''n_questions'', PInt (int n_questions)),
                    (KStr ''languages_available'',
                       PList (map key_val (dict_keys job_translations)))]))),
             (KStr ''norm_groups'', norm_groups)])))"

text \<open>Steps 1 to 8: the loaders in the order of the source, then the display.\<close>

definition assemble :: "literals \<Rightarrow> env \<Rightarrow> line list \<times> (exn + dict)" where
  "assemble txt e =
     then_out (quiet (load_multilingual_jobs e)) (\<lambda>job_translations.
     then_out (quiet (load_base_job_data e)) (\<lambda>base_data.
     then_out (quiet (Inr (load_other_files e))) (\<lambda>other_data.
     then_out (load_questions e) (\<lambda>(questions_dict, n_questions).
     then_out (quiet (convert_tsv_files e)) (\<lambda>tsv_data.
     then_out (quiet (load_scaler e)) (\<lambda>scaler_params.
     then_out (quiet (Inr (get_translation_texts txt))) (\<lambda>translations.
       quiet (build_complete_data e job_translations base_data other_data questions_dict
                n_questions tsv_data scaler_params translations))))))))"

subsection \<open>Summary, validation and examples\<close>

text \<open>\<^verbatim>\<open>x.values()\<close>, \<^verbatim>\<open>lang in x\<close> and \<^verbatim>\<open>x[lang]\<close> for a string \<open>lang\<close>.\<close>

fun py_values :: "pyval \<Rightarrow> exn + pyval list" where
  "py_values (PDict d) = Inr (dict_values d)"
| "py_values _ = Inl AttributeError"

fun is_substring :: "string \<Rightarrow> string \<Rightarrow> bool" where
  "is_substring s [] = (s = [])"
| "is_substring s (c # t) = (take (length s) (c # t) = s \<or> is_substring s t)"

fun py_in :: "string \<Rightarrow> pyval \<Rightarrow> exn + bool" where
  "py_in s (PDict d) = Inr (KStr s \<in> set (dict_keys d))"
| "py_in s (PList xs) = Inr (PStr s \<in> set xs)"
| "py_in s (PStr t) = Inr (is_substring s t)"
| "py_in s _ = Inl TypeError"

fun py_item :: "pyval \<Rightarrow> string \<Rightarrow> exn + pyval" where
  "py_item (PDict d) s = dict_item d (KStr s)"
| "py_item _ s = Inl TypeError"

text \<open>
  \<^verbatim>\<open>all(len(v) == n_jobs for v in ...)\<close>: the generator stops at the first list of
  another length.
\<close>

fun all_len_eq :: "pyval list \<Rightarrow> nat \<Rightarrow> exn + bool" where
  "all_len_eq [] n_jobs = Inr True"
| "all_len_eq (v # vs) n_jobs =
     and_then (py_len v) (\<lambda>n. if n = n_jobs then all_len_eq vs n_jobs else Inr False)"

definition validation :: "dict \<Rightarrow> nat \<Rightarrow> line list \<times> (exn + unit)" where
  "validation complete_data n_jobs =
     then_out (quiet (and_then (py_values (dict_get complete_data (KStr ''job_translations'') (PDict [])))
                        (\<lambda>vs. all_len_eq vs n_jobs))) (\<lambda>ok.
     then_out (say (ValidJobTranslations ok)) (\<lambda>_.
     then_out (quiet (py_len (dict_get complete_data (KStr ''job_codes'') (PList [])))) (\<lambda>n.
     then_out (say (ValidJobCodes (n = n_jobs))) (\<lambda>_.
     then_out (quiet (py_len (dict_get complete_data (KStr ''scaled_features'') (PList [])))) (\<lambda>n.
       say (ValidScaledFeatures (n = n_jobs)))))))"

fun examples_loop :: "dict \<Rightarrow> string list \<Rightarrow> exn + unit" where
  "examples_loop complete_data [] = Inr ()"
| "examples_loop complete_data (lang # langs) =
     and_then (py_in lang (dict_get complete_data (KStr ''job_translations'') (PDict []))) (\<lambda>present.
     and_then (if present then
                 and_then (dict_item complete_data (KStr ''job_translations'')) (\<lambda>jt.
                 and_then (py_item jt lang) (\<lambda>jobs. py_slice jobs 3))
               else Inr PNone) (\<lambda>_.
       examples_loop complete_data langs))"

text \<open>Step 10 and what follows it, up to the \<^verbatim>\<open>return\<close>.\<close>

definition report :: "dict \<Rightarrow> line list \<times> (exn + unit)" where
  "report complete_data =
     then_out (quiet (and_then (py_get (dict_get complete_data (KStr ''job_translations'') (PDict []))
                                  (KStr ''en'') (PList [])) py_len)) (\<lambda>n_jobs.
     then_out (quiet (py_len (dict_get complete_data (KStr ''job_translations'') (PDict [])))) (\<lambda>_.
     then_out (quiet (py_len (dict_get complete_data (KStr ''scaled_features'') (PList [])))) (\<lambda>_.
     then_out (validation complete_data n_jobs) (\<lambda>_.
       quiet (examples_loop complete_data [''en'', ''zh'', ''es'', ''fr'', ''ru'', ''ar''])))))"

subsection \<open>\<^verbatim>\<open>convert_all_data\<close>\<close>

definition output_file :: string where
  "output_file = ''app_data_complete.json''"

text \<open>
  The body runs inside \<^verbatim>\<open>try\<close>; \<^verbatim>\<open>except Exception\<close> prints the message and the stack
  trace and returns \<^verbatim>\<open>None\<close>. The result is the files, the console and the value
  returned.
\<close>

definition convert_all_data :: "literals \<Rightarrow> env \<Rightarrow> fs \<Rightarrow> fs \<times> line list \<times> string option" where
  "convert_all_data txt e files =
     (case assemble txt e of
        (out, Inl err) \<Rightarrow> (files, out @ [ErrorDuringConversion err, Traceback err], None)
      | (out, Inr complete_data) \<Rightarrow>
          (case write_json e files output_file (PDict complete_data) of
             (files', Inl err) \<Rightarrow>
               (files', out @ [ErrorDuringConversion err, Traceback err], None)
           | (files', Inr _) \<Rightarrow>
               (case report complete_data of
                  (out', Inl err) \<Rightarrow>
                    (files', out @ out' @ [ErrorDuringConversion err, Traceback err], None)
                | (out', Inr _) \<Rightarrow> (files', out @ out', Some output_file))))"

section \<open>The compact document: \<^verbatim>\<open>create_compact_version\<close>\<close>

fun py_keys :: "pyval \<Rightarrow> exn + pyval" where
  "py_keys (PDict d) = Inr (PList (map key_val (dict_keys d)))"
| "py_keys _ = Inl AttributeError"

definition compact_data :: "pyval \<Rightarrow> exn + pyval" where
  "compact_data full_data =
     and_then (py_get full_data (KStr ''job_translations'') (PDict [])) (\<lambda>job_translations.
     and_then (py_get full_data (KStr ''job_codes'') (PList [])) (\<lambda>job_codes.
     and_then (py_get full_data (KStr ''scaled_features'') (PList [])) (\<lambda>scaled_features.
     and_then (py_get full_data (KStr ''pca_weights'') (PList [])) (\<lambda>pca_weights.
     and_then (py_get full_data (KStr ''questions'') (PDict [])) (\<lambda>questions.
     and_then (py_get full_data (KStr ''mean_norms'') (PDict [])) (\<lambda>mean_norms.
     and_then (py_get full_data (KStr ''sd_norms'') (PDict [])) (\<lambda>sd_norms.
     and_then (py_get full_data (KStr ''weights'') (PList [])) (\<lambda>weights.
     and_then (py_get full_data (KStr ''scaler_params'') (PDict [])) (\<lambda>scaler_params.
     and_then (and_then (py_get full_data (KStr ''translations'') (PDict []))
                 (\<lambda>t. py_get t (KStr ''trait_names'') (PDict []))) (\<lambda>trait_names.
     and_then (and_then (py_get full_data (KStr ''translations'') (PDict []))
                 (\<lambda>t. py_get t (KStr ''disclaimer'') (PDict []))) (\<lambda>disclaimer.
     and_then (and_then (and_then (py_get full_data (KStr ''job_translations'') (PDict []))
                 (\<lambda>jt. py_get jt (KStr ''en'') (PList []))) py_len) (\<lambda>n_jobs.
     and_then (and_then (and_then (py_get full_data (KStr ''questions'') (PDict []))
                 (\<lambda>q. py_get q (KStr ''en'') (PList []))) py_len) (\<lambda>n_questions.
     and_then (and_then (py_get full_data (KStr ''job_translations'') (PDict [])) py_keys) (\<lambda>langs.
       Inr (PDict (dict_display
         [(KStr ''job_translations'', job_translations),
          (KStr ''job_codes'', job_codes),
          (KStr ''scaled_features'', scaled_features),
          (KStr ''pca_weights'', pca_weights),
          (KStr ''questions'', questions),
          (KStr ''mean_norms'', mean_norms),
          (KStr ''sd_norms'', sd_norms),
          (KStr ''weights'', weights),
          (KStr ''scaler_params'', scaler_params),
          (KStr ''translations'', PDict (dict_display
             [(KStr ''trait_names'', trait_names),
              (KStr ''disclaimer'', disclaimer)])),
          (KStr ''metadata'', PDict (dict_display
             [(KStr ''n_jobs'', PInt (int n_jobs)),
              (KStr ''n_questions'', PInt (int n_questions)),
              (KStr ''languages'', langs)]))]))))))))))))))))"

definition compact_file :: string where
  "compact_file = ''app_data_compact.json''"

text \<open>
  The full document is read back from the file; \<^verbatim>\<open>except Exception\<close> turns every failure
  into one console line.
\<close>

definition create_compact_version :: "env \<Rightarrow> fs \<Rightarrow> fs \<times> line list" where
  "create_compact_version e files =
     (case and_then (read_json files ''app_data_complete.json'') compact_data of
        Inl err \<Rightarrow> (files, [CreatingCompact, CompactFailed err])
      | Inr compact \<Rightarrow>
          (case write_json e files compact_file compact of
             (files', Inl err) \<Rightarrow> (files', [CreatingCompact, CompactFailed err])
           | (files', Inr _) \<Rightarrow> (files', [CreatingCompact, CompactSaved])))"

section \<open>The script body\<close>

definition main :: "literals \<Rightarrow> env \<Rightarrow> fs \<Rightarrow> fs \<times> line list" where
  "main txt e files =
     (case convert_all_data txt e files of
        (files', out, ret) \<Rightarrow>
          if (case ret of None \<Rightarrow> False | Some name \<Rightarrow> name \<noteq> []) then
            (case create_compact_version e files' of
               (files'', out') \<Rightarrow> (files'', out @ out' @ [AllComplete]))
          else (files', out @ [ConversionFailed]))"

section \<open>Vocabulary of the statements\<close>

text \<open>
  What a loader stores for an input: the payload when the library call returned one, the
  default otherwise.
\<close>

definition payload :: "exn + 'a \<Rightarrow> 'a \<Rightarrow> 'a" where
  "payload r dflt = (case r of Inl err \<Rightarrow> dflt | Inr v \<Rightarrow> v)"

definition job_value :: "env \<Rightarrow> string \<Rightarrow> pyval" where
  "job_value e lang = payload (np_tolist e (job_path lang)) (PList [])"

text \<open>The job file of a language passes the loop body of \<^verbatim>\<open>load_multilingual_jobs\<close>.\<close>

definition job_ok :: "env \<Rightarrow> string \<Rightarrow> bool" where
  "job_ok e lang =
     (case np_tolist e (job_path lang) of
        Inl err \<Rightarrow> err = FileNotFoundError
      | Inr v \<Rightarrow> (case py_len v of
                    Inl err \<Rightarrow> False
                  | Inr n \<Rightarrow> n = 0 \<or> (case py_slice v 3 of Inl err \<Rightarrow> False | Inr s \<Rightarrow> True)))"

text \<open>The question list built from a column, and the column a language is read from.\<close>

definition question_column :: "dataframe \<Rightarrow> string \<Rightarrow> pyval" where
  "question_column df name =
     (case df_col df name of
        Inl err \<Rightarrow> PList []
      | Inr c \<Rightarrow> str_tolist (astype_str (fillna c '''')))"

definition question_source :: "dataframe \<Rightarrow> string \<Rightarrow> string" where
  "question_source df lang = (if lang \<in> set (columns df) then lang else ''en'')"

text \<open>Each remaining loader passes on an input exactly when the following holds.\<close>

definition codes_ok :: "env \<Rightarrow> bool" where
  "codes_ok e =
     (case np_tolist e ''job_codes.npy'' of
        Inl err \<Rightarrow> err = FileNotFoundError
      | Inr v \<Rightarrow> (\<exists>n. py_len v = Inr n) \<and> (\<exists>s. py_slice v 5 = Inr s))"

definition pca_ok :: "env \<Rightarrow> bool" where
  "pca_ok e =
     (case np_tolist e ''pca_weights.npy'' of
        Inl err \<Rightarrow> err = FileNotFoundError
      | Inr v \<Rightarrow> py_truthy v \<longrightarrow> np_shape v \<noteq> None)"

definition features_ok :: "env \<Rightarrow> bool" where
  "features_ok e =
     (case np_tolist e ''scaled_job_features.npy'' of
        Inl err \<Rightarrow> err = FileNotFoundError
      | Inr v \<Rightarrow> (\<exists>n. py_len v = Inr n))"

definition norms_ok :: "env \<Rightarrow> string \<Rightarrow> bool" where
  "norms_ok e path =
     (case read_csv e path of
        Inl err \<Rightarrow> err = FileNotFoundError
      | Inr df \<Rightarrow> (\<exists>d. norms_loop df (rows df) [] = Inr d))"

definition weights_ok :: "env \<Rightarrow> bool" where
  "weights_ok e =
     (case read_csv e ''weightsB5.tsv'' of
        Inl err \<Rightarrow> err = FileNotFoundError
      | Inr df \<Rightarrow> True)"

definition norms_value :: "env \<Rightarrow> string \<Rightarrow> pyval" where
  "norms_value e path =
     (case read_csv e path of
        Inl err \<Rightarrow> PDict []
      | Inr df \<Rightarrow> PDict (payload (norms_loop df (rows df) []) []))"

definition weights_value :: "env \<Rightarrow> pyval" where
  "weights_value e =
     (case read_csv e ''weightsB5.tsv'' of Inl err \<Rightarrow> PList [] | Inr df \<Rightarrow> values_tolist df)"

definition metadata :: "env \<Rightarrow> nat \<Rightarrow> nat \<Rightarrow> dict" where
  "metadata e n_jobs n_questions =
     [(KStr ''version'', PStr ''2.0.0''),
      (KStr ''created_at'', PStr (now e)),
      (KStr ''data_sources'', PList (map PStr
         [''job_en.npy, job_zh.npy, job_es.npy, job_fr.npy, job_ru.npy, job_ar.npy'',
          ''job_codes.npy'',
          ''scaled_job_features.npy'',
          ''pca_weights.npy'',
          ''meanNorms.tsv'',
          ''sdNorms.tsv'',
          ''questions.tsv'',
          ''weightsB5.tsv'',
          ''your_scaler.pkl''])),
      (KStr ''languages_supported'', PList (map PStr languages)),
      (KStr ''n_jobs'', PInt (int n_jobs)),
      (KStr ''model_info'', PDict
         [(KStr ''name'', PStr ''JobRecommenderMLP''),
          (KStr ''input_dim'', PInt 5),
          (KStr ''hidden_dim'', PInt 128),
          (KStr ''output_dim'', PInt 263)]),
      (KStr ''n_questions'', PInt (int n_questions)),
      (KStr ''languages_available'', PList (map PStr languages))]"

definition document :: "env \<Rightarrow> pyval \<Rightarrow> pyval \<Rightarrow> nat \<Rightarrow> pyval \<Rightarrow> nat \<Rightarrow> dict" where
  "document e translations questions_dict n_questions scaler_params n_jobs =
     [(KStr ''job_translations'', PDict (map (\<lambda>l. (KStr l, job_value e l)) languages)),
      (KStr ''job_codes'', payload (np_tolist e ''job_codes.npy'') (PList [])),
      (KStr ''pca_weights'', payload (np_tolist e ''pca_weights.npy'') (PList [])),
      (KStr ''scaled_features'', payload (np_tolist e ''scaled_job_features.npy'') (PList [])),
      (KStr ''job_names'', job_value e ''en''),
      (KStr ''text_dict'', payload (np_item e ''text_dict.npy'') (PDict [])),
      (KStr ''language_display'', payload (np_item e ''language_display.npy'') (PDict [])),
      (KStr ''questions'', questions_dict),
      (KStr ''mean_norms'', norms_value e ''meanNorms.tsv''),
      (KStr ''sd_norms'', norms_value e ''sdNorms.tsv''),
      (KStr ''weights'', weights_value e),
      (KStr ''scaler_params'', scaler_params),
      (KStr ''translations'', translations),
      (KStr ''metadata'', PDict (metadata e n_jobs n_questions)),
      (KStr ''norm_groups'', norm_groups)]"

subsection \<open>A sample run\<close>

text \<open>
  A small environment on which the statements are evaluated: English and Chinese job
  names, job codes, a question table with an English and a Chinese column, one row of
  mean norms; every other input is absent.
\<close>

definition demo_questions :: dataframe where
  "demo_questions =
     \<lparr>columns = [''en'', ''zh''], rows = [[CStr ''Q1'', CStr ''W1''], [CStr ''Q2'']]\<rparr>"

definition demo_norms :: dataframe where
  "demo_norms = \<lparr>columns = [''group'', ''N'', ''E''], rows = [[CInt 1, CInt 50, CInt 10]]\<rparr>"

definition demo_env :: env where
  "demo_env = \<lparr>
     np_tolist = (\<lambda>p.
       if p = ''job_en.npy'' then Inr (PList [PStr ''Actor'', PStr ''Baker''])
       else if p = ''job_zh.npy'' then Inr (PList [PStr ''Yanyuan'', PStr ''Mianbaoshi''])
       else if p = ''job_codes.npy'' then Inr (PList [PInt 11, PInt 12])
       else Inl FileNotFoundError),
     np_item = (\<lambda>p. Inl FileNotFoundError),
     read_csv = (\<lambda>p.
       if p = ''questions.tsv'' then Inr demo_questions
       else if p = ''meanNorms.tsv'' then Inr demo_norms
       else Inl FileNotFoundError),
     joblib_load = (\<lambda>p. Inl FileNotFoundError),
     can_write = (\<lambda>p. True),
     now = ''2024-01-01T00:00:00'' \<rparr>"

definition demo_txt :: literals where
  "demo_txt = (\<lambda>key lang. PStr (key @ ''/'' @ lang))"

definition demo_document :: dict where
  "demo_document =
     document demo_env (get_translation_texts demo_txt)
       (PDict [(KStr ''en'', PList [PStr ''Q1'', PStr ''Q2'']),
               (KStr ''zh'', PList [PStr ''W1'', PStr '''']),
               (KStr ''es'', PList [PStr ''Q1'', PStr ''Q2'']),
               (KStr ''fr'', PList [PStr ''Q1'', PStr ''Q2'']),
               (KStr ''ru'', PList [PStr ''Q1'', PStr ''Q2'']),
               (KStr ''ar'', PList [PStr ''Q1'', PStr ''Q2''])]) 2 (PDict []) 2"

subsection \<open>Values that JSON represents exactly\<close>

text \<open>
  A value is native when it has no object outside JSON and every dictionary in it has
  distinct string keys. \<open>reload v\<close> is what \<^verbatim>\<open>json.load\<close> returns for the text that
  \<^verbatim>\<open>json.dump\<close> wrote for \<open>v\<close>.
\<close>

fun is_KStr :: "pykey \<Rightarrow> bool" where
  "is_KStr (KStr s) = True"
| "is_KStr _ = False"

fun native :: "pyval \<Rightarrow> bool" where
  "native (PList xs) = (\<forall>x \<in> set xs. native x)"
| "native (PDict d) =
     ((\<forall>kv \<in> set d. is_KStr (fst kv) \<and> native (snd kv)) \<and> distinct (map fst d))"
| "native POther = False"
| "native _ = True"

definition reload :: "pyval \<Rightarrow> pyval" where
  "reload v = json_load (the (json_dump v))"

text \<open>
  The console of a run that wrote both files ends with the three lines of a saved
  compact version.
\<close>

definition completed :: "line list \<Rightarrow> bool" where
  "completed out = (take 3 (rev out) = [AllComplete, CompactSaved, CreatingCompact])"

text \<open>The dictionary \<^verbatim>\<open>compact_data\<close> that \<^verbatim>\<open>create_compact_version\<close> builds from a full document.\<close>

definition compact_document :: "dict \<Rightarrow> dict \<Rightarrow> dict \<Rightarrow> dict \<Rightarrow> nat \<Rightarrow> nat \<Rightarrow> dict" where
  "compact_document d jt q t n nq =
     [(KStr ''job_translations'', PDict jt),
      (KStr ''job_codes'', dict_get d (KStr ''job_codes'') (PList [])),
      (KStr ''scaled_features'', dict_get d (KStr ''scaled_features'') (PList [])),
      (KStr ''pca_weights'', dict_get d (KStr ''pca_weights'') (PList [])),
      (KStr ''questions'', PDict q),
      (KStr ''mean_norms'', dict_get d (KStr ''mean_norms'') (PDict [])),
      (KStr ''sd_norms'', dict_get d (KStr ''sd_norms'') (PDict [])),
      (KStr ''weights'', dict_get d (KStr ''weights'') (PList [])),
      (KStr ''scaler_params'', dict_get d (KStr ''scaler_params'') (PDict [])),
      (KStr ''translations'', PDict
         [(KStr ''trait_names'', dict_get t (KStr ''trait_names'') (PDict [])),
          (KStr ''disclaimer'', dict_get t (KStr ''disclaimer'') (PDict []))]),
      (KStr ''metadata'', PDict
         [(KStr ''n_jobs'', PInt (int n)),
          (KStr ''n_questions'', PInt (int nq)),
          (KStr ''languages'', PList (map key_val (dict_keys jt)))])]"

text \<open>The top-level keys the compact document copies from the full one.\<close>

definition whitelist :: "string list" where
  "whitelist = [''job_translations'', ''job_codes'', ''scaled_features'', ''pca_weights'',
                ''questions'', ''mean_norms'', ''sd_norms'', ''weights'', ''scaler_params'']"

text \<open>Every stored job list can be sliced for the example lines printed after validation.\<close>

definition samples_ok :: "env \<Rightarrow> bool" where
  "samples_ok e = (\<forall>l \<in> set languages. \<exists>s. py_slice (job_value e l) 3 = Inr s)"

text \<open>A dictionary with every value replaced by what is read back for it.\<close>

definition reloaded :: "dict \<Rightarrow> dict" where
  "reloaded d = map (\<lambda>kv. (fst kv, reload (snd kv))) d"

text \<open>\<^verbatim>\<open>json.dump\<close> accepts the value.\<close>

definition dumpable :: "pyval \<Rightarrow> bool" where
  "dumpable v = (json_dump v \<noteq> None)"

text \<open>A full file whose own question count disagrees with its question list.\<close>

definition skewed_full :: json where
  "skewed_full =
     JObj [(''questions'', JObj [(''en'', JArr [JStr ''Q1''])]),
           (''metadata'', JObj [(''n_questions'', JInt 7)])]"

definition skewed_files :: fs where
  "skewed_files = [''app_data_complete.json'' \<mapsto> Json skewed_full]"

(*DEFS*)

section \<open>Basic facts\<close>

lemma and_then_Inr [simp]: "and_then (Inr x) f = f x"
  by (simp add: and_then_def)

lemma and_then_Inl [simp]: "and_then (Inl err) f = Inl err"
  by (simp add: and_then_def)

lemma and_then_eq_Inr_iff: "and_then m f = Inr y \<longleftrightarrow> (\<exists>x. m = Inr x \<and> f x = Inr y)"
  by (cases m) simp_all

lemma dict_set_append: "k \<notin> fst ` set d \<Longrightarrow> dict_set d k v = d @ [(k, v)]"
  unfolding dict_set_def by (induction d) auto

lemma fold_dict_set_distinct:
  "distinct (map fst (d @ items)) \<Longrightarrow>
   fold (\<lambda>kv d. dict_set d (fst kv) (snd kv)) items d = d @ items"
proof (induction items arbitrary: d)
  case Nil
  then show ?case by simp
next
  case (Cons kv items)
  have "fst kv \<notin> fst ` set d" using Cons.prems by auto
  then have step: "dict_set d (fst kv) (snd kv) = d @ [kv]"
    by (simp add: dict_set_append)
  have "distinct (map fst ((d @ [kv]) @ items))" using Cons.prems by simp
  from Cons.IH [OF this] show ?case by (simp add: step)
qed

lemma dict_display_distinct: "distinct (map fst items) \<Longrightarrow> dict_display items = items"
  unfolding dict_display_def using fold_dict_set_distinct [of "[]" items] by simp

lemma languages_fold:
  "fold (\<lambda>l d. dict_set d (KStr l) (f l)) languages [] = map (\<lambda>l. (KStr l, f l)) languages"
  by (simp add: languages_def dict_set_def)

lemma map_of_languages:
  "map_of (map (\<lambda>l. (KStr l, f l)) languages) (KStr l) =
     (if l \<in> set languages then Some (f l) else None)"
  by (simp add: languages_def)

section \<open>The question loader\<close>

lemma column_index_None_iff: "column_index cs name = None \<longleftrightarrow> name \<notin> set cs"
  by (induction cs) auto

lemma df_col_Inr:
  "name \<in> set (columns df) \<Longrightarrow> \<exists>c. df_col df name = Inr c \<and> length c = length (rows df)"
  using column_index_None_iff [of "columns df" name]
  by (auto simp: df_col_def split: option.splits)

lemma df_col_Inl: "name \<notin> set (columns df) \<Longrightarrow> df_col df name = Inl KeyError"
  using column_index_None_iff [of "columns df" name] by (simp add: df_col_def)

lemma load_questions_loop_ok:
  "''en'' \<in> set (columns df) \<Longrightarrow>
   load_questions_loop df langs qd =
     (map (\<lambda>l. if l \<in> set (columns df) then QuestionsLang l (length (rows df))
               else QuestionsFallback l) langs,
      Inr (fold (\<lambda>l d. dict_set d (KStr l) (question_column df (question_source df l))) langs qd))"
proof (induction langs arbitrary: qd)
  case Nil
  then show ?case by simp
next
  case (Cons l langs)
  show ?case
  proof (cases "l \<in> set (columns df)")
    case True
    then obtain c where c: "df_col df l = Inr c" "length c = length (rows df)"
      using df_col_Inr by blast
    show ?thesis using True c Cons.IH [OF Cons.prems]
      by (simp add: question_column_def question_source_def astype_str_def fillna_def)
  next
    case False
    obtain c where c: "df_col df ''en'' = Inr c" "length c = length (rows df)"
      using df_col_Inr [OF Cons.prems] by blast
    show ?thesis using False c Cons.IH [OF Cons.prems]
      by (simp add: question_column_def question_source_def)
  qed
qed

lemma load_questions_ok:
  assumes "read_csv e ''questions.tsv'' = Inr df" and "''en'' \<in> set (columns df)"
  shows "load_questions e =
     (QuestionsLoaded (length (rows df)) #
        map (\<lambda>l. if l \<in> set (columns df) then QuestionsLang l (length (rows df))
                  else QuestionsFallback l) languages,
      Inr (PDict (map (\<lambda>l. (KStr l, question_column df (question_source df l))) languages),
           length (rows df)))"
  using assms by (simp add: load_questions_def load_questions_loop_ok languages_fold)

section \<open>The job-name loader\<close>

lemma load_jobs_loop_iff:
  "load_jobs_loop e langs jt = Inr jt' \<longleftrightarrow>
     (\<forall>l \<in> set langs. job_ok e l) \<and>
     jt' = fold (\<lambda>l d. dict_set d (KStr l) (job_value e l)) langs jt"
proof (induction langs arbitrary: jt)
  case Nil
  then show ?case by auto
next
  case (Cons l langs)
  show ?case
  proof (cases "np_tolist e (job_path l)")
    case (Inl err)
    then show ?thesis using Cons.IH
      by (cases err) (simp_all add: job_ok_def job_value_def payload_def)
  next
    case (Inr v)
    then show ?thesis using Cons.IH
      by (auto simp: job_ok_def job_value_def payload_def and_then_def split: sum.splits)
  qed
qed

lemma job_ok_len: "job_ok e l \<Longrightarrow> \<exists>n. py_len (job_value e l) = Inr n"
  by (auto simp: job_ok_def job_value_def payload_def split: sum.splits)

lemma job_lengths_ok:
  "(\<forall>l \<in> set langs. \<forall>v. map_of jt (KStr l) = Some v \<longrightarrow> (\<exists>n. py_len v = Inr n)) \<Longrightarrow>
   \<exists>ns. job_lengths jt langs = Inr ns"
proof (induction langs)
  case Nil
  then show ?case by simp
next
  case (Cons l langs)
  then obtain ns where ns: "job_lengths jt langs = Inr ns" by auto
  show ?case
  proof (cases "KStr l \<in> set (dict_keys jt)")
    case True
    then obtain v where v: "map_of jt (KStr l) = Some v"
      by (metis dict_keys_def map_of_eq_None_iff not_Some_eq set_map)
    then obtain n where "py_len v = Inr n" using Cons.prems by auto
    then show ?thesis using True v ns by (simp add: dict_item_def)
  next
    case False
    then show ?thesis using ns by simp
  qed
qed

lemma load_multilingual_jobs_iff:
  "load_multilingual_jobs e = Inr jt \<longleftrightarrow>
     (\<forall>l \<in> set languages. job_ok e l) \<and> jt = map (\<lambda>l. (KStr l, job_value e l)) languages"
proof -
  let ?jt = "map (\<lambda>l. (KStr l, job_value e l)) languages"
  have "\<exists>ns. job_lengths ?jt languages = Inr ns" if "\<forall>l \<in> set languages. job_ok e l"
  proof (rule job_lengths_ok, intro ballI allI impI)
    fix l v assume "l \<in> set languages" "map_of ?jt (KStr l) = Some v"
    then have "v = job_value e l" by (simp add: map_of_languages)
    then show "\<exists>n. py_len v = Inr n" using job_ok_len that \<open>l \<in> set languages\<close> by blast
  qed
  then show ?thesis
    unfolding load_multilingual_jobs_def
    by (auto simp: and_then_eq_Inr_iff load_jobs_loop_iff languages_fold)
qed

section \<open>The other loaders and the assembled document\<close>

lemma load_job_codes_iff:
  "load_job_codes e d = Inr d' \<longleftrightarrow>
     codes_ok e \<and> d' = dict_set d (KStr ''job_codes'') (payload (np_tolist e ''job_codes.npy'') (PList []))"
proof (cases "np_tolist e ''job_codes.npy''")
  case (Inl err)
  then show ?thesis
    by (cases err) (auto simp: load_job_codes_def codes_ok_def payload_def)
next
  case (Inr v)
  then show ?thesis
    by (auto simp: load_job_codes_def codes_ok_def payload_def and_then_eq_Inr_iff)
qed

lemma load_pca_weights_iff:
  "load_pca_weights e d = Inr d' \<longleftrightarrow>
     pca_ok e \<and> d' = dict_set d (KStr ''pca_weights'') (payload (np_tolist e ''pca_weights.npy'') (PList []))"
proof (cases "np_tolist e ''pca_weights.npy''")
  case (Inl err)
  then show ?thesis
    by (cases err) (auto simp: load_pca_weights_def pca_ok_def payload_def)
next
  case (Inr v)
  then show ?thesis
    by (auto simp: load_pca_weights_def pca_ok_def payload_def and_then_eq_Inr_iff
          np_array_shape_def split: option.splits)
qed

lemma load_scaled_features_iff:
  "load_scaled_features e d = Inr d' \<longleftrightarrow>
     features_ok e \<and>
     d' = dict_set d (KStr ''scaled_features'') (payload (np_tolist e ''scaled_job_features.npy'') (PList []))"
proof (cases "np_tolist e ''scaled_job_features.npy''")
  case (Inl err)
  then show ?thesis
    by (cases err) (auto simp: load_scaled_features_def features_ok_def payload_def)
next
  case (Inr v)
  then show ?thesis
    by (auto simp: load_scaled_features_def features_ok_def payload_def and_then_eq_Inr_iff)
qed

lemma load_base_job_data_iff:
  "load_base_job_data e = Inr b \<longleftrightarrow>
     codes_ok e \<and> pca_ok e \<and> features_ok e \<and>
     b = [(KStr ''job_codes'', payload (np_tolist e ''job_codes.npy'') (PList [])),
          (KStr ''pca_weights'', payload (np_tolist e ''pca_weights.npy'') (PList [])),
          (KStr ''scaled_features'', payload (np_tolist e ''scaled_job_features.npy'') (PList []))]"
  unfolding load_base_job_data_def
  by (auto simp: and_then_eq_Inr_iff load_job_codes_iff load_pca_weights_iff
        load_scaled_features_iff dict_set_def)

lemma load_norms_iff:
  "load_norms e path key d = Inr d' \<longleftrightarrow>
     norms_ok e path \<and> d' = dict_set d (KStr key) (norms_value e path)"
proof (cases "read_csv e path")
  case (Inl err)
  then show ?thesis
    by (cases err) (auto simp: load_norms_def norms_ok_def norms_value_def)
next
  case (Inr df)
  then show ?thesis
    by (auto simp: load_norms_def norms_ok_def norms_value_def payload_def and_then_eq_Inr_iff)
qed

lemma load_weights_iff:
  "load_weights e d = Inr d' \<longleftrightarrow>
     weights_ok e \<and> d' = dict_set d (KStr ''weights'') (weights_value e)"
proof (cases "read_csv e ''weightsB5.tsv''")
  case (Inl err)
  then show ?thesis
    by (cases err) (auto simp: load_weights_def weights_ok_def weights_value_def)
next
  case (Inr df)
  then show ?thesis
    by (auto simp: load_weights_def weights_ok_def weights_value_def)
qed

lemma convert_tsv_files_iff:
  "convert_tsv_files e = Inr t \<longleftrightarrow>
     norms_ok e ''meanNorms.tsv'' \<and> norms_ok e ''sdNorms.tsv'' \<and> weights_ok e \<and>
     t = [(KStr ''mean_norms'', norms_value e ''meanNorms.tsv''),
          (KStr ''sd_norms'', norms_value e ''sdNorms.tsv''),
          (KStr ''weights'', weights_value e)]"
  unfolding convert_tsv_files_def
  by (auto simp: and_then_eq_Inr_iff load_norms_iff load_weights_iff dict_set_def)

lemma load_other_files_eq:
  "load_other_files e =
     [(KStr ''text_dict'', payload (np_item e ''text_dict.npy'') (PDict [])),
      (KStr ''language_display'', payload (np_item e ''language_display.npy'') (PDict []))]"
  by (simp add: load_other_files_def dict_set_def payload_def)

lemma metadata_display:
  "dict_display (get_metadata e
      @ [(KStr ''n_jobs'', PInt (int n)),
         (KStr ''n_questions'', PInt (int nq)),
         (KStr ''languages_available'',
            PList (map key_val (dict_keys (map (\<lambda>l. (KStr l, f l)) languages))))])
   = metadata e n nq"
  by (simp add: get_metadata_def dict_display_def dict_set_def metadata_def languages_def
        dict_keys_def)

lemma dict_get_languages_en:
  "dict_get (map (\<lambda>l. (KStr l, f l)) languages) (KStr ''en'') dflt = f ''en''"
  by (simp add: dict_get_def languages_def)

lemma build_complete_data_iff:
  "build_complete_data e (map (\<lambda>l. (KStr l, job_value e l)) languages)
      [(KStr ''job_codes'', payload (np_tolist e ''job_codes.npy'') (PList [])),
       (KStr ''pca_weights'', payload (np_tolist e ''pca_weights.npy'') (PList [])),
       (KStr ''scaled_features'', payload (np_tolist e ''scaled_job_features.npy'') (PList []))]
      (load_other_files e) q nq
      [(KStr ''mean_norms'', norms_value e ''meanNorms.tsv''),
       (KStr ''sd_norms'', norms_value e ''sdNorms.tsv''),
       (KStr ''weights'', weights_value e)]
      sp tr = Inr cd \<longleftrightarrow>
   (\<exists>n. py_len (job_value e ''en'') = Inr n \<and> cd = document e tr q nq sp n)"
proof -
  let ?base = "[(KStr ''job_codes'', payload (np_tolist e ''job_codes.npy'') (PList [])),
       (KStr ''pca_weights'', payload (np_tolist e ''pca_weights.npy'') (PList [])),
       (KStr ''scaled_features'', payload (np_tolist e ''scaled_job_features.npy'') (PList []))]"
  have b1: "dict_get ?base (KStr ''job_codes'') (PList []) =
              payload (np_tolist e ''job_codes.npy'') (PList [])"
    by (simp add: dict_get_def)
  have b2: "dict_get ?base (KStr ''pca_weights'') (PList []) =
              payload (np_tolist e ''pca_weights.npy'') (PList [])"
    by (simp add: dict_get_def)
  have b3: "dict_get ?base (KStr ''scaled_features'') (PList []) =
              payload (np_tolist e ''scaled_job_features.npy'') (PList [])"
    by (simp add: dict_get_def)
  show ?thesis
    unfolding build_complete_data_def b1 b2 b3 dict_get_languages_en metadata_display
      load_other_files_eq and_then_eq_Inr_iff
    by (auto simp: dict_display_distinct document_def)
qed

lemma then_out_quiet_Inr_iff:
  "then_out (quiet m) f = (out, Inr y) \<longleftrightarrow> (\<exists>x. m = Inr x \<and> f x = (out, Inr y))"
  by (cases m) (auto simp: then_out_def quiet_def split: prod.splits)

lemma then_out_Inr_iff:
  "then_out m f = (out, Inr y) \<longleftrightarrow>
     (\<exists>o1 x o2. m = (o1, Inr x) \<and> f x = (o2, Inr y) \<and> out = o1 @ o2)"
  by (cases m; cases "snd m") (auto simp: then_out_def split: prod.splits)

lemma quiet_eq_iff: "quiet m = (out, r) \<longleftrightarrow> out = [] \<and> m = r"
  by (auto simp: quiet_def)

section \<open>When assembly succeeds\<close>

lemma then_out_quiet:
  "then_out (quiet m) f = (case m of Inl err \<Rightarrow> ([], Inl err) | Inr x \<Rightarrow> f x)"
  by (cases m) (simp_all add: then_out_def quiet_def split: prod.splits)

lemma assemble_InrD:
  assumes "assemble txt e = (out, Inr cd)"
  shows "\<exists>jt b q nq t sp. load_multilingual_jobs e = Inr jt \<and> load_base_job_data e = Inr b \<and>
      load_questions e = (out, Inr (q, nq)) \<and> convert_tsv_files e = Inr t \<and> load_scaler e = Inr sp \<and>
      build_complete_data e jt b (load_other_files e) q nq t sp
        (get_translation_texts txt) = Inr cd"
proof (cases "load_multilingual_jobs e")
  case (Inl err)
  then show ?thesis using assms by (simp add: assemble_def then_out_def quiet_def)
next
  case jt: (Inr jt)
  show ?thesis
  proof (cases "load_base_job_data e")
    case (Inl err)
    then show ?thesis using assms jt by (simp add: assemble_def then_out_def quiet_def)
  next
    case b: (Inr b)
    obtain o1 r where q: "load_questions e = (o1, r)" by (cases "load_questions e")
    show ?thesis
    proof (cases r)
      case (Inl err)
      then show ?thesis using assms jt b q by (simp add: assemble_def then_out_def quiet_def)
    next
      case qn: (Inr qn)
      obtain q' nq where qn': "qn = (q', nq)" by (cases qn)
      show ?thesis
      proof (cases "convert_tsv_files e")
        case (Inl err)
        then show ?thesis using assms jt b q qn qn'
          by (simp add: assemble_def then_out_def quiet_def)
      next
        case t: (Inr t)
        show ?thesis
        proof (cases "load_scaler e")
          case (Inl err)
          then show ?thesis using assms jt b q qn qn' t
            by (simp add: assemble_def then_out_def quiet_def)
        next
          case sp: (Inr sp)
          have "assemble txt e =
                  (o1, build_complete_data e jt b (load_other_files e) q' nq t sp
                         (get_translation_texts txt))"
            using jt b q qn qn' t sp
            by (simp add: assemble_def then_out_def quiet_def)
          with assms show ?thesis using jt b q qn qn' t sp by simp
        qed
      qed
    qed
  qed
qed


lemma assemble_InrI:
  assumes "\<forall>l \<in> set languages. job_ok e l" and "codes_ok e" and "pca_ok e" and "features_ok e"
    and "norms_ok e ''meanNorms.tsv''" and "norms_ok e ''sdNorms.tsv''" and "weights_ok e"
    and q: "load_questions e = (out, Inr (q, nq))" and sp: "load_scaler e = Inr sp"
    and n: "py_len (job_value e ''en'') = Inr n"
  shows "assemble txt e = (out, Inr (document e (get_translation_texts txt) q nq sp n))"
proof -
  have jt: "load_multilingual_jobs e = Inr (map (\<lambda>l. (KStr l, job_value e l)) languages)"
    using assms by (simp add: load_multilingual_jobs_iff)
  have b: "load_base_job_data e =
     Inr [(KStr ''job_codes'', payload (np_tolist e ''job_codes.npy'') (PList [])),
          (KStr ''pca_weights'', payload (np_tolist e ''pca_weights.npy'') (PList [])),
          (KStr ''scaled_features'', payload (np_tolist e ''scaled_job_features.npy'') (PList []))]"
    using assms by (simp add: load_base_job_data_iff)
  have t: "convert_tsv_files e =
     Inr [(KStr ''mean_norms'', norms_value e ''meanNorms.tsv''),
          (KStr ''sd_norms'', norms_value e ''sdNorms.tsv''),
          (KStr ''weights'', weights_value e)]"
    using assms by (simp add: convert_tsv_files_iff)
  have bc: "build_complete_data e (map (\<lambda>l. (KStr l, job_value e l)) languages)
      [(KStr ''job_codes'', payload (np_tolist e ''job_codes.npy'') (PList [])),
       (KStr ''pca_weights'', payload (np_tolist e ''pca_weights.npy'') (PList [])),
       (KStr ''scaled_features'', payload (np_tolist e ''scaled_job_features.npy'') (PList []))]
      (load_other_files e) q nq
      [(KStr ''mean_norms'', norms_value e ''meanNorms.tsv''),
       (KStr ''sd_norms'', norms_value e ''sdNorms.tsv''),
       (KStr ''weights'', weights_value e)]
      sp (get_translation_texts txt)
     = Inr (document e (get_translation_texts txt) q nq sp n)"
    using n by (simp add: build_complete_data_iff)
  show ?thesis
    unfolding assemble_def jt b t sp q
    by (simp only: then_out_def quiet_def prod.case sum.case append_Nil append_Nil2 bc)
qed

lemma assemble_iff:
  "assemble txt e = (out, Inr cd) \<longleftrightarrow>
     (\<forall>l \<in> set languages. job_ok e l) \<and> codes_ok e \<and> pca_ok e \<and> features_ok e \<and>
     norms_ok e ''meanNorms.tsv'' \<and> norms_ok e ''sdNorms.tsv'' \<and> weights_ok e \<and>
     (\<exists>q nq sp n. load_questions e = (out, Inr (q, nq)) \<and> load_scaler e = Inr sp \<and>
        py_len (job_value e ''en'') = Inr n \<and>
        cd = document e (get_translation_texts txt) q nq sp n)"
  (is "?lhs \<longleftrightarrow> ?rhs")
proof
  assume ?lhs
  then obtain jt b q nq t sp where
    jt: "load_multilingual_jobs e = Inr jt" and b: "load_base_job_data e = Inr b" and
    q: "load_questions e = (out, Inr (q, nq))" and t: "convert_tsv_files e = Inr t" and
    sp: "load_scaler e = Inr sp" and
    cd: "build_complete_data e jt b (load_other_files e) q nq t sp (get_translation_texts txt) = Inr cd"
    using assemble_InrD by blast
  from jt have jt': "\<forall>l \<in> set languages. job_ok e l"
    "jt = map (\<lambda>l. (KStr l, job_value e l)) languages"
    by (simp_all add: load_multilingual_jobs_iff)
  from b have b': "codes_ok e" "pca_ok e" "features_ok e"
    "b = [(KStr ''job_codes'', payload (np_tolist e ''job_codes.npy'') (PList [])),
          (KStr ''pca_weights'', payload (np_tolist e ''pca_weights.npy'') (PList [])),
          (KStr ''scaled_features'', payload (np_tolist e ''scaled_job_features.npy'') (PList []))]"
    by (simp_all add: load_base_job_data_iff)
  from t have t': "norms_ok e ''meanNorms.tsv''" "norms_ok e ''sdNorms.tsv''" "weights_ok e"
    "t = [(KStr ''mean_norms'', norms_value e ''meanNorms.tsv''),
          (KStr ''sd_norms'', norms_value e ''sdNorms.tsv''),
          (KStr ''weights'', weights_value e)]"
    by (simp_all add: convert_tsv_files_iff)
  from cd obtain n where "py_len (job_value e ''en'') = Inr n"
    "cd = document e (get_translation_texts txt) q nq sp n"
    unfolding jt'(2) b'(4) t'(4) build_complete_data_iff by blast
  with jt'(1) b'(1-3) t'(1-3) q sp show ?rhs by blast
next
  assume ?rhs
  then show ?lhs using assemble_InrI by blast
qed

section \<open>Fields of the assembled document\<close>

lemma document_items:
  "dict_item (document e tr q nq sp n) (KStr ''job_translations'') =
     Inr (PDict (map (\<lambda>l. (KStr l, job_value e l)) languages))"
  "dict_item (document e tr q nq sp n) (KStr ''questions'') = Inr q"
  "dict_item (document e tr q nq sp n) (KStr ''metadata'') = Inr (PDict (metadata e n nq))"
  by (simp_all add: document_def dict_item_def)

lemma metadata_items:
  "dict_item (metadata e n nq) (KStr ''n_jobs'') = Inr (PInt (int n))"
  "dict_item (metadata e n nq) (KStr ''n_questions'') = Inr (PInt (int nq))"
  "dict_item (metadata e n nq) (KStr ''languages_available'') = Inr (PList (map PStr languages))"
  by (simp_all add: metadata_def dict_item_def)

lemma dict_item_languages:
  "l \<in> set languages \<Longrightarrow> dict_item (map (\<lambda>l. (KStr l, f l)) languages) (KStr l) = Inr (f l)"
  by (simp add: dict_item_def map_of_languages)


section \<open>The sample run\<close>

lemma demo_job_ok: "\<forall>l \<in> set languages. job_ok demo_env l"
  by (simp add: languages_def job_ok_def demo_env_def job_path_def)

lemma demo_base_ok: "codes_ok demo_env" "pca_ok demo_env" "features_ok demo_env"
  by (simp_all add: codes_ok_def pca_ok_def features_ok_def demo_env_def)

lemma demo_tsv_ok:
  "norms_ok demo_env ''meanNorms.tsv''" "norms_ok demo_env ''sdNorms.tsv''" "weights_ok demo_env"
  by (simp_all add: norms_ok_def weights_ok_def demo_env_def demo_norms_def row_item_def
        cell_at_def)

lemma demo_questions_cols:
  "question_column demo_questions ''en'' = PList [PStr ''Q1'', PStr ''Q2'']"
  "question_column demo_questions ''zh'' = PList [PStr ''W1'', PStr '''']"
  by (simp_all add: question_column_def demo_questions_def df_col_def cell_at_def fillna_def
        astype_str_def str_tolist_def nan_def)

lemma demo_load_questions:
  "load_questions demo_env =
     ([QuestionsLoaded 2, QuestionsLang ''en'' 2, QuestionsLang ''zh'' 2,
       QuestionsFallback ''es'', QuestionsFallback ''fr'', QuestionsFallback ''ru'',
       QuestionsFallback ''ar''],
      Inr (PDict [(KStr ''en'', PList [PStr ''Q1'', PStr ''Q2'']),
                  (KStr ''zh'', PList [PStr ''W1'', PStr '''']),
                  (KStr ''es'', PList [PStr ''Q1'', PStr ''Q2'']),
                  (KStr ''fr'', PList [PStr ''Q1'', PStr ''Q2'']),
                  (KStr ''ru'', PList [PStr ''Q1'', PStr ''Q2'']),
                  (KStr ''ar'', PList [PStr ''Q1'', PStr ''Q2''])], 2))"
proof -
  have "read_csv demo_env ''questions.tsv'' = Inr demo_questions"
    by (simp add: demo_env_def)
  moreover have "''en'' \<in> set (columns demo_questions)" by (simp add: demo_questions_def)
  ultimately show ?thesis
    using load_questions_ok [of demo_env demo_questions]
    by (simp add: languages_def question_source_def demo_questions_cols)
       (simp add: demo_questions_def)
qed

lemma demo_load_scaler: "load_scaler demo_env = Inr (PDict [])"
  by (simp add: load_scaler_def demo_env_def)

lemma demo_job_value:
  "job_value demo_env ''en'' = PList [PStr ''Actor'', PStr ''Baker'']"
  by (simp add: job_value_def payload_def demo_env_def job_path_def)



section \<open>Claims\<close>

text \<open>
  C5. When the question table has an English column and lacks the column of a supported
  language X, the loader stores under X the very list it stores under English (the
  English column with missing cells replaced by the empty string, each cell as text),
  and prints the fallback line for X; the assembled document carries that mapping.
\<close>

theorem questions_fallback_copies_english:
  assumes csv: "read_csv e ''questions.tsv'' = Inr df" and en: "''en'' \<in> set (columns df)"
    and X: "X \<in> set languages" and missing: "X \<notin> set (columns df)"
  shows "\<exists>out qd n. load_questions e = (out, Inr (PDict qd, n)) \<and>
           dict_item qd (KStr X) = Inr (question_column df ''en'') \<and>
           dict_item qd (KStr ''en'') = Inr (question_column df ''en'') \<and>
           QuestionsFallback X \<in> set out \<and>
           (\<forall>txt out2 cd. assemble txt e = (out2, Inr cd) \<longrightarrow>
              dict_item cd (KStr ''questions'') = Inr (PDict qd) \<and>
              QuestionsFallback X \<in> set out2)"
proof -
  let ?qd = "map (\<lambda>l. (KStr l, question_column df (question_source df l))) languages"
  let ?out = "QuestionsLoaded (length (rows df)) #
        map (\<lambda>l. if l \<in> set (columns df) then QuestionsLang l (length (rows df))
                  else QuestionsFallback l) languages"
  have lq: "load_questions e = (?out, Inr (PDict ?qd, length (rows df)))"
    using load_questions_ok [OF csv en] .
  have enl: "''en'' \<in> set languages" by (simp add: languages_def)
  have x: "dict_item ?qd (KStr X) = Inr (question_column df ''en'')"
    using X missing by (simp add: dict_item_languages question_source_def)
  have e: "dict_item ?qd (KStr ''en'') = Inr (question_column df ''en'')"
    using enl en by (simp add: dict_item_languages question_source_def)
  have fb: "QuestionsFallback X \<in> set ?out" using X missing by auto
  have doc: "dict_item cd (KStr ''questions'') = Inr (PDict ?qd) \<and> QuestionsFallback X \<in> set out2"
    if "assemble tx e = (out2, Inr cd)" for tx out2 cd
  proof -
    from that obtain q nq sp n where
      "load_questions e = (out2, Inr (q, nq))" "cd = document e (get_translation_texts tx) q nq sp n"
      unfolding assemble_iff by blast
    with lq fb show ?thesis by (simp add: document_items)
  qed
  show ?thesis using lq x e fb doc by blast
qed

theorem questions_fallback_copies_english_witness:
  "read_csv demo_env ''questions.tsv'' = Inr demo_questions \<and>
   ''en'' \<in> set (columns demo_questions) \<and> ''es'' \<in> set languages \<and>
   ''es'' \<notin> set (columns demo_questions) \<and>
   (\<exists>out qd n. load_questions demo_env = (out, Inr (PDict qd, n)) \<and>
      dict_item qd (KStr ''es'') = Inr (PList [PStr ''Q1'', PStr ''Q2'']) \<and>
      dict_item qd (KStr ''en'') = Inr (PList [PStr ''Q1'', PStr ''Q2'']) \<and>
      QuestionsFallback ''es'' \<in> set out)"
proof -
  have h: "read_csv demo_env ''questions.tsv'' = Inr demo_questions"
    "''en'' \<in> set (columns demo_questions)" "''es'' \<in> set languages"
    "''es'' \<notin> set (columns demo_questions)"
    by (simp_all add: demo_env_def demo_questions_def languages_def)
  from questions_fallback_copies_english [OF h] h show ?thesis
    by (simp add: demo_questions_cols) blast
qed

lemma dict_keys_languages: "dict_keys (map (\<lambda>l. (KStr l, f l)) languages) = map KStr languages"
  by (simp add: dict_keys_def comp_def)


lemma demo_assemble:
  "assemble demo_txt demo_env = (fst (load_questions demo_env), Inr demo_document)"
proof -
  have n: "py_len (job_value demo_env ''en'') = Inr 2" by (simp add: demo_job_value)
  show ?thesis
    unfolding demo_document_def
    by (rule assemble_InrI [OF demo_job_ok demo_base_ok demo_tsv_ok _ demo_load_scaler n])
       (simp add: demo_load_questions)
qed

lemma demo_document_items:
  "dict_item demo_document (KStr ''job_translations'') =
     Inr (PDict (map (\<lambda>l. (KStr l, job_value demo_env l)) languages))"
  "dict_item demo_document (KStr ''metadata'') = Inr (PDict (metadata demo_env 2 2))"
  by (simp_all add: demo_document_def document_items)

text \<open>
  C9. Whatever subset of the six job-name files exists (each existing file holding a
  list), \<^verbatim>\<open>load_multilingual_jobs\<close> returns a mapping whose keys are exactly en, zh, es,
  fr, ru, ar in that order, an absent file contributing the empty list; in every
  assembled document \<open>job_translations\<close> is that mapping and
  \<open>metadata.languages_available\<close> is the same six-element list.
\<close>

theorem job_translations_always_six_languages:
  assumes files: "\<forall>l \<in> set languages.
     np_tolist e (job_path l) = Inl FileNotFoundError \<or> (\<exists>xs. np_tolist e (job_path l) = Inr (PList xs))"
  shows "\<exists>jt. load_multilingual_jobs e = Inr jt \<and>
     dict_keys jt = map KStr [''en'', ''zh'', ''es'', ''fr'', ''ru'', ''ar''] \<and>
     (\<forall>l \<in> set languages. np_tolist e (job_path l) = Inl FileNotFoundError \<longrightarrow>
        dict_item jt (KStr l) = Inr (PList [])) \<and>
     (\<forall>tx out cd. assemble tx e = (out, Inr cd) \<longrightarrow>
        dict_item cd (KStr ''job_translations'') = Inr (PDict jt) \<and>
        and_then (dict_item cd (KStr ''metadata''))
          (\<lambda>m. py_get m (KStr ''languages_available'') PNone) =
        Inr (PList (map PStr [''en'', ''zh'', ''es'', ''fr'', ''ru'', ''ar''])))"
proof -
  let ?jt = "map (\<lambda>l. (KStr l, job_value e l)) languages"
  have ok: "\<forall>l \<in> set languages. job_ok e l"
    using files by (auto simp: job_ok_def)
  then have load: "load_multilingual_jobs e = Inr ?jt"
    by (simp add: load_multilingual_jobs_iff)
  have keys: "dict_keys ?jt = map KStr [''en'', ''zh'', ''es'', ''fr'', ''ru'', ''ar'']"
    by (simp add: dict_keys_languages) (simp add: languages_def)
  have absent: "dict_item ?jt (KStr l) = Inr (PList [])"
    if "l \<in> set languages" "np_tolist e (job_path l) = Inl FileNotFoundError" for l
    using that by (simp add: dict_item_languages job_value_def payload_def)
  have doc: "dict_item cd (KStr ''job_translations'') = Inr (PDict ?jt) \<and>
        and_then (dict_item cd (KStr ''metadata''))
          (\<lambda>m. py_get m (KStr ''languages_available'') PNone) =
        Inr (PList (map PStr [''en'', ''zh'', ''es'', ''fr'', ''ru'', ''ar'']))"
    if "assemble tx e = (out, Inr cd)" for tx out cd
  proof -
    from that obtain q nq sp n where cd: "cd = document e (get_translation_texts tx) q nq sp n"
      unfolding assemble_iff by blast
    have "dict_get (metadata e n nq) (KStr ''languages_available'') PNone =
            PList (map PStr [''en'', ''zh'', ''es'', ''fr'', ''ru'', ''ar''])"
      by (simp add: metadata_def dict_get_def languages_def)
    then show ?thesis by (simp add: cd document_items)
  qed
  show ?thesis using load keys absent doc by blast
qed

theorem job_translations_always_six_languages_witness:
  "np_tolist demo_env (job_path ''en'') = Inr (PList [PStr ''Actor'', PStr ''Baker'']) \<and>
   np_tolist demo_env (job_path ''es'') = Inl FileNotFoundError \<and>
   load_multilingual_jobs demo_env =
     Inr [(KStr ''en'', PList [PStr ''Actor'', PStr ''Baker'']),
          (KStr ''zh'', PList [PStr ''Yanyuan'', PStr ''Mianbaoshi'']),
          (KStr ''es'', PList []), (KStr ''fr'', PList []),
          (KStr ''ru'', PList []), (KStr ''ar'', PList [])]"
proof -
  have h: "\<forall>l \<in> set languages.
     np_tolist demo_env (job_path l) = Inl FileNotFoundError \<or>
     (\<exists>xs. np_tolist demo_env (job_path l) = Inr (PList xs))"
    by (simp add: languages_def demo_env_def job_path_def)
  from job_translations_always_six_languages [OF h] obtain jt where
    "load_multilingual_jobs demo_env = Inr jt" by blast
  then have "load_multilingual_jobs demo_env =
     Inr (map (\<lambda>l. (KStr l, job_value demo_env l)) languages)"
    by (simp add: load_multilingual_jobs_iff)
  then show ?thesis
    by (simp add: languages_def job_value_def payload_def demo_env_def job_path_def)
qed

text \<open>
  C4. In every assembled document \<open>metadata.n_jobs\<close> is the length of the English entry of
  \<open>job_translations\<close> (0 when the English file is absent) and
  \<open>metadata.languages_available\<close> is the list of keys of \<open>job_translations\<close>; the
  placeholder 263 of \<^verbatim>\<open>get_metadata\<close> does not survive.
\<close>

theorem metadata_counts_follow_job_translations:
  assumes "assemble tx e = (out, Inr cd)"
  shows "\<exists>jt md n. dict_item cd (KStr ''job_translations'') = Inr (PDict jt) \<and>
      dict_item cd (KStr ''metadata'') = Inr (PDict md) \<and>
      py_len (dict_get jt (KStr ''en'') (PList [])) = Inr n \<and>
      dict_item md (KStr ''n_jobs'') = Inr (PInt (int n)) \<and>
      dict_item md (KStr ''languages_available'') = Inr (PList (map key_val (dict_keys jt))) \<and>
      (np_tolist e ''job_en.npy'' = Inl FileNotFoundError \<longrightarrow> n = 0)"
proof -
  let ?jt = "map (\<lambda>l. (KStr l, job_value e l)) languages"
  from assms obtain q nq sp n where n: "py_len (job_value e ''en'') = Inr n"
    and cd: "cd = document e (get_translation_texts tx) q nq sp n"
    unfolding assemble_iff by blast
  have en: "dict_get ?jt (KStr ''en'') (PList []) = job_value e ''en''"
    by (rule dict_get_languages_en)
  have langs: "map key_val (dict_keys ?jt) = map PStr languages"
    by (simp add: dict_keys_languages comp_def)
  have zero: "n = 0" if "np_tolist e ''job_en.npy'' = Inl FileNotFoundError"
    using that n by (simp add: job_value_def payload_def job_path_def)
  show ?thesis
    using n zero by (auto simp: cd document_items metadata_items en langs)
qed

theorem metadata_counts_follow_job_translations_witness:
  "\<exists>out cd jt md. assemble demo_txt demo_env = (out, Inr cd) \<and>
     dict_item cd (KStr ''job_translations'') = Inr (PDict jt) \<and>
     dict_item cd (KStr ''metadata'') = Inr (PDict md) \<and>
     py_len (dict_get jt (KStr ''en'') (PList [])) = Inr 2 \<and>
     dict_item md (KStr ''n_jobs'') = Inr (PInt 2) \<and>
     dict_item md (KStr ''languages_available'') =
       Inr (PList (map PStr [''en'', ''zh'', ''es'', ''fr'', ''ru'', ''ar'']))"
proof -
  note a = demo_assemble
  from metadata_counts_follow_job_translations [OF a] obtain jt md n where r:
    "dict_item demo_document
       (KStr ''job_translations'') = Inr (PDict jt)"
    "dict_item demo_document
       (KStr ''metadata'') = Inr (PDict md)"
    "py_len (dict_get jt (KStr ''en'') (PList [])) = Inr n"
    "dict_item md (KStr ''n_jobs'') = Inr (PInt (int n))"
    "dict_item md (KStr ''languages_available'') = Inr (PList (map key_val (dict_keys jt)))"
    by blast
  from r(1) have jt: "jt = map (\<lambda>l. (KStr l, job_value demo_env l)) languages"
    by (simp add: demo_document_items)
  from r(3) have n2: "n = 2" by (simp add: jt dict_get_languages_en demo_job_value)
  have k: "map key_val (dict_keys jt) = map PStr [''en'', ''zh'', ''es'', ''fr'', ''ru'', ''ar'']"
    by (simp add: jt dict_keys_languages comp_def) (simp add: languages_def)
  have e2: "py_len (dict_get jt (KStr ''en'') (PList [])) = Inr 2" using r(3) n2 by simp
  have n4: "dict_item md (KStr ''n_jobs'') = Inr (PInt 2)" using r(4) n2 by simp
  have l5: "dict_item md (KStr ''languages_available'') =
       Inr (PList (map PStr [''en'', ''zh'', ''es'', ''fr'', ''ru'', ''ar'']))"
    using r(5) k by simp
  from a r(1) r(2) e2 n4 l5 show ?thesis by blast
qed

section \<open>Writing and reading JSON\<close>

lemma those_map_Some:
  "(\<forall>x \<in> set xs. \<exists>y. f x = Some y) \<Longrightarrow> those (map f xs) = Some (map (\<lambda>x. the (f x)) xs)"
  by (induction xs) auto

lemma those_items_Some:
  "(\<forall>kv \<in> set d. \<exists>s j. key_str (fst kv) = Some s \<and> json_dump (snd kv) = Some j) \<Longrightarrow>
   those_items (map (\<lambda>(k, v). (key_str k, json_dump v)) d) =
     Some (map (\<lambda>kv. (the (key_str (fst kv)), the (json_dump (snd kv)))) d)"
  by (induction d) auto

lemma native_roundtrip: "native v \<Longrightarrow> \<exists>j. json_dump v = Some j \<and> json_load j = v"
proof (induction v)
  case (PList xs)
  have each: "\<forall>x \<in> set xs. \<exists>j. json_dump x = Some j \<and> json_load j = x"
    using PList by auto
  then have "those (map json_dump xs) = Some (map (\<lambda>x. the (json_dump x)) xs)"
    by (intro those_map_Some) blast
  moreover have "map json_load (map (\<lambda>x. the (json_dump x)) xs) = xs"
    using each by (induction xs) auto
  ultimately show ?case by simp
next
  case (PDict d)
  have each: "\<forall>kv \<in> set d. \<exists>s j. fst kv = KStr s \<and> json_dump (snd kv) = Some j \<and> json_load j = snd kv"
  proof
    fix kv assume kv: "kv \<in> set d"
    obtain k v where [simp]: "kv = (k, v)" by (cases kv)
    from kv PDict.prems have "is_KStr k" "native v" by auto
    moreover from kv have "v \<in> Basic_BNFs.snds kv" by simp
    ultimately show "\<exists>s j. fst kv = KStr s \<and> json_dump (snd kv) = Some j \<and> json_load j = snd kv"
      using PDict.IH [OF kv] by (cases k) auto
  qed
  then have "those_items (map (\<lambda>(k, v). (key_str k, json_dump v)) d) =
     Some (map (\<lambda>kv. (the (key_str (fst kv)), the (json_dump (snd kv)))) d)"
    by (intro those_items_Some) fastforce
  moreover have "map (\<lambda>(k, j). (KStr k, json_load j))
       (map (\<lambda>kv. (the (key_str (fst kv)), the (json_dump (snd kv)))) d) = d"
    using each by (induction d) auto
  moreover have "dict_display d = d" using PDict.prems by (simp add: dict_display_distinct)
  ultimately show ?case by simp
qed simp_all


lemma dict_set_distinct: "distinct (map fst d) \<Longrightarrow> distinct (map fst (dict_set d k v))"
  unfolding dict_set_def by (rule distinct_update)

lemma set_dict_set: "set (dict_set d k v) \<subseteq> insert (k, v) (set d)"
  unfolding dict_set_def by (induction d) auto

lemma fold_dict_set_props:
  "distinct (map fst d) \<Longrightarrow>
   distinct (map fst (fold (\<lambda>kv d. dict_set d (fst kv) (snd kv)) items d)) \<and>
   set (fold (\<lambda>kv d. dict_set d (fst kv) (snd kv)) items d) \<subseteq> set d \<union> set items"
proof (induction items arbitrary: d)
  case Nil
  then show ?case by simp
next
  case (Cons kv items)
  have d: "distinct (map fst (dict_set d (fst kv) (snd kv)))"
    using Cons.prems by (rule dict_set_distinct)
  have s: "set (dict_set d (fst kv) (snd kv)) \<subseteq> insert kv (set d)"
    using set_dict_set [of d "fst kv" "snd kv"] by simp
  from Cons.IH [OF d] s show ?case by auto
qed

lemma dict_display_props:
  "distinct (map fst (dict_display items))" "set (dict_display items) \<subseteq> set items"
  using fold_dict_set_props [of "[]" items] by (simp_all add: dict_display_def)

lemma json_load_native: "native (json_load j)"
proof (induction j)
  case (JObj kvs)
  let ?items = "map (\<lambda>(k, j). (KStr k, json_load j)) kvs"
  have "is_KStr (fst kv) \<and> native (snd kv)" if "kv \<in> set ?items" for kv
  proof -
    from that obtain k j where kj: "(k, j) \<in> set kvs" "kv = (KStr k, json_load j)" by auto
    from kj(1) have "j \<in> Basic_BNFs.snds (k, j)" by simp
    with JObj kj show ?thesis by auto
  qed
  then have items: "\<forall>kv \<in> set ?items. is_KStr (fst kv) \<and> native (snd kv)" by blast
  have "\<forall>kv \<in> set (dict_display ?items). is_KStr (fst kv) \<and> native (snd kv)"
    using items dict_display_props(2) [of ?items] by blast
  then show ?case using dict_display_props(1) [of ?items] by simp
qed auto

lemma roundtrip_again:
  "\<exists>j'. json_dump (json_load j) = Some j' \<and> json_load j' = json_load j"
  using native_roundtrip [OF json_load_native] .

lemma those_items_SomeD:
  "those_items (map (\<lambda>(k, v). (key_str k, json_dump v)) d) = Some items \<Longrightarrow>
   \<forall>kv \<in> set d. \<exists>s j. key_str (fst kv) = Some s \<and> json_dump (snd kv) = Some j"
proof (induction d arbitrary: items)
  case Nil
  then show ?case by simp
next
  case (Cons kv d)
  obtain k v where kv: "kv = (k, v)" by (cases kv)
  from Cons.prems obtain s j rest where
    "key_str k = Some s" "json_dump v = Some j"
    "those_items (map (\<lambda>(k, v). (key_str k, json_dump v)) d) = Some rest"
    by (cases "key_str k"; cases "json_dump v") (auto simp: kv)
  with Cons.IH show ?case by (auto simp: kv)
qed

lemma reload_native: "native v \<Longrightarrow> reload v = v"
  using native_roundtrip [of v] by (auto simp: reload_def)

lemma dump_load_str_dict:
  assumes dump: "json_dump (PDict d) = Some j"
    and keys: "\<forall>kv \<in> set d. is_KStr (fst kv)" and dist: "distinct (map fst d)"
  shows "json_load j = PDict (map (\<lambda>kv. (fst kv, reload (snd kv))) d)"
    and "\<forall>kv \<in> set d. json_dump (snd kv) \<noteq> None"
proof -
  from dump obtain items where
    items: "those_items (map (\<lambda>(k, v). (key_str k, json_dump v)) d) = Some items"
    and j: "j = JObj items" by auto
  have each: "\<forall>kv \<in> set d. \<exists>s j. key_str (fst kv) = Some s \<and> json_dump (snd kv) = Some j"
    using those_items_SomeD [OF items] .
  then show "\<forall>kv \<in> set d. json_dump (snd kv) \<noteq> None" by fastforce
  have "items = map (\<lambda>kv. (the (key_str (fst kv)), the (json_dump (snd kv)))) d"
    using those_items_Some [OF each] items by simp
  then have m: "map (\<lambda>(k, j). (KStr k, json_load j)) items =
          map (\<lambda>kv. (KStr (the (key_str (fst kv))), reload (snd kv))) d"
    by (simp add: reload_def comp_def)
  have "KStr (the (key_str (fst kv))) = fst kv" if "kv \<in> set d" for kv
    using keys that by (cases "fst kv") auto
  then have m2: "map (\<lambda>kv. (KStr (the (key_str (fst kv))), reload (snd kv))) d =
          map (\<lambda>kv. (fst kv, reload (snd kv))) d"
    by simp
  have "distinct (map fst (map (\<lambda>kv. (fst kv, reload (snd kv))) d))"
    using dist by (simp add: comp_def)
  then have "dict_display (map (\<lambda>kv. (fst kv, reload (snd kv))) d) =
          map (\<lambda>kv. (fst kv, reload (snd kv))) d"
    by (rule dict_display_distinct)
  then show "json_load j = PDict (map (\<lambda>kv. (fst kv, reload (snd kv))) d)"
    unfolding j json_load.simps m m2 by simp
qed

lemma dict_item_reload_map:
  "dict_item (map (\<lambda>kv. (fst kv, f (snd kv))) d) k =
     (case dict_item d k of Inl err \<Rightarrow> Inl err | Inr v \<Rightarrow> Inr (f v))"
  by (induction d) (auto simp: dict_item_def)

lemma dict_get_reload_map:
  "dict_get (map (\<lambda>kv. (fst kv, f (snd kv))) d) k dflt =
     (case dict_item d k of Inl err \<Rightarrow> dflt | Inr v \<Rightarrow> f v)"
  by (induction d) (auto simp: dict_item_def dict_get_def)

lemma py_get_Inr_iff:
  "py_get x k dflt = Inr y \<longleftrightarrow> (\<exists>d. x = PDict d \<and> y = dict_get d k dflt)"
  by (cases x) auto

lemma py_keys_Inr_iff:
  "py_keys x = Inr y \<longleftrightarrow> (\<exists>d. x = PDict d \<and> y = PList (map key_val (dict_keys d)))"
  by (cases x) auto

section \<open>Runs that write both files\<close>

lemma completed_tail [simp]:
  "completed (xs @ [a, b, c]) \<longleftrightarrow> a = CreatingCompact \<and> b = CompactSaved \<and> c = AllComplete"
  by (auto simp: completed_def)

lemma completed_tail2 [simp]:
  "completed (xs @ ys @ [a, b, c]) \<longleftrightarrow>
     a = CreatingCompact \<and> b = CompactSaved \<and> c = AllComplete"
  using completed_tail [of "xs @ ys" a b c] by simp

lemma not_completed_failed [simp]: "\<not> completed (xs @ [ConversionFailed])"
  by (simp add: completed_def)

lemma write_json_Inr_iff:
  "write_json e files path v = (files', Inr u) \<longleftrightarrow>
     can_write e path \<and> (\<exists>j. json_dump v = Some j \<and> files' = files(path \<mapsto> Json j))"
  by (auto simp: write_json_def split: option.splits)

lemma convert_all_data_Some_iff:
  "convert_all_data tx e files = (files', out, Some name) \<longleftrightarrow>
     (\<exists>o1 cd j o2. assemble tx e = (o1, Inr cd) \<and> can_write e output_file \<and>
        json_dump (PDict cd) = Some j \<and> report cd = (o2, Inr ()) \<and>
        files' = files(output_file \<mapsto> Json j) \<and> out = o1 @ o2 \<and> name = output_file)"
proof -
  obtain o1 r where a: "assemble tx e = (o1, r)" by (cases "assemble tx e")
  show ?thesis
  proof (cases r)
    case (Inl err)
    then show ?thesis using a by (simp add: convert_all_data_def)
  next
    case (Inr cd)
    obtain f1 w where w: "write_json e files output_file (PDict cd) = (f1, w)"
      by (cases "write_json e files output_file (PDict cd)")
    show ?thesis
    proof (cases w)
      case (Inl err)
      then show ?thesis using a Inr w write_json_Inr_iff [of e files output_file "PDict cd"]
        by (auto simp: convert_all_data_def)
    next
      case wr: (Inr u)
      obtain o2 rr where rp: "report cd = (o2, rr)" by (cases "report cd")
      from w wr have fj: "can_write e output_file"
        "\<exists>j. json_dump (PDict cd) = Some j \<and> f1 = files(output_file \<mapsto> Json j)"
        by (simp_all add: write_json_Inr_iff)
      show ?thesis
      proof (cases rr)
        case (Inl err)
        then show ?thesis using a Inr w wr rp by (auto simp: convert_all_data_def)
      next
        case (Inr u2)
        then show ?thesis using a \<open>r = Inr cd\<close> w wr rp fj
          by (auto simp: convert_all_data_def)
      qed
    qed
  qed
qed

lemma convert_all_data_None:
  "convert_all_data tx e files = (files', out, None) \<Longrightarrow>
     \<exists>pre err. out = pre @ [ErrorDuringConversion err, Traceback err]"
  by (auto simp: convert_all_data_def split: prod.splits sum.splits)

lemma read_json_written:
  "read_json (files(p \<mapsto> Json j)) p = Inr (json_load j)"
  by (simp add: read_json_def)

lemma main_completed_iff:
  "main tx e files = (files', out) \<and> completed out \<longleftrightarrow>
     (\<exists>o1 cd j o2 c cj. assemble tx e = (o1, Inr cd) \<and> can_write e output_file \<and>
        json_dump (PDict cd) = Some j \<and> report cd = (o2, Inr ()) \<and>
        compact_data (json_load j) = Inr c \<and> can_write e compact_file \<and>
        json_dump c = Some cj \<and>
        files' = files(output_file \<mapsto> Json j, compact_file \<mapsto> Json cj) \<and>
        out = o1 @ o2 @ [CreatingCompact, CompactSaved, AllComplete])"
  (is "?lhs \<longleftrightarrow> ?rhs")
proof -
  obtain f1 o1 ret where c: "convert_all_data tx e files = (f1, o1, ret)"
    by (cases "convert_all_data tx e files")
  show ?thesis
  proof (cases ret)
    case None
    have "main tx e files = (f1, o1 @ [ConversionFailed])"
      using c None by (simp add: main_def)
    then have nl: "\<not> ?lhs" by auto
    have nr: "\<not> ?rhs"
    proof
      assume ?rhs
      then obtain oa cd j ob where "assemble tx e = (oa, Inr cd)" "can_write e output_file"
        "json_dump (PDict cd) = Some j" "report cd = (ob, Inr ())"
        by blast
      then have "convert_all_data tx e files =
          (files(output_file \<mapsto> Json j), oa @ ob, Some output_file)"
        unfolding convert_all_data_Some_iff by blast
      with c None show False by simp
    qed
    from nl nr show ?thesis by blast
  next
    case (Some name)
    with c have cs: "convert_all_data tx e files = (f1, o1, Some name)" by simp
    then obtain oa cd j ob where s: "assemble tx e = (oa, Inr cd)" "can_write e output_file"
      "json_dump (PDict cd) = Some j" "report cd = (ob, Inr ())"
      "f1 = files(output_file \<mapsto> Json j)" "o1 = oa @ ob" "name = output_file"
      unfolding convert_all_data_Some_iff by blast
    have rj: "read_json f1 ''app_data_complete.json'' = Inr (json_load j)"
      using s(5) read_json_written by (simp add: output_file_def)
    have m: "main tx e files =
       (case create_compact_version e f1 of (f2, o2) \<Rightarrow> (f2, o1 @ o2 @ [AllComplete]))"
      using c Some s(7) by (simp add: main_def output_file_def)
    show ?thesis
    proof (cases "compact_data (json_load j)")
      case (Inl err)
      then show ?thesis using m rj s c Some
        by (auto simp: create_compact_version_def convert_all_data_Some_iff)
    next
      case (Inr cdat)
      obtain f2 w where w: "write_json e f1 compact_file cdat = (f2, w)"
        by (cases "write_json e f1 compact_file cdat")
      show ?thesis
      proof (cases w)
        case (Inl err)
        then show ?thesis
          using m rj s c Some Inr w write_json_Inr_iff [of e f1 compact_file cdat]
          by (auto simp: create_compact_version_def convert_all_data_Some_iff)
      next
        case wr: (Inr u)
        from w wr obtain cj where cj: "can_write e compact_file" "json_dump cdat = Some cj"
          "f2 = f1(compact_file \<mapsto> Json cj)"
          by (auto simp: write_json_Inr_iff)
        have "main tx e files = (f2, o1 @ [CreatingCompact, CompactSaved, AllComplete])"
          using m rj Inr w wr by (simp add: create_compact_version_def)
        then show ?thesis using s c Some Inr cj
          by (auto simp: convert_all_data_Some_iff)
      qed
    qed
  qed
qed

lemma compact_data_PDict:
  "compact_data (PDict d) = Inr c \<longleftrightarrow>
     (\<exists>jt q t n nq.
        dict_get d (KStr ''job_translations'') (PDict []) = PDict jt \<and>
        dict_get d (KStr ''questions'') (PDict []) = PDict q \<and>
        dict_get d (KStr ''translations'') (PDict []) = PDict t \<and>
        py_len (dict_get jt (KStr ''en'') (PList [])) = Inr n \<and>
        py_len (dict_get q (KStr ''en'') (PList [])) = Inr nq \<and>
        c = PDict (compact_document d jt q t n nq))"
  unfolding compact_data_def compact_document_def
  by (auto simp: and_then_eq_Inr_iff py_get_Inr_iff py_keys_Inr_iff dict_display_distinct)

section \<open>The compact document\<close>

lemma dict_item_present:
  "k \<in> set (dict_keys d) \<Longrightarrow> dict_item d k = Inr (dict_get d k dflt)"
  by (induction d) (auto simp: dict_item_def dict_get_def dict_keys_def)

lemma native_dict_get:
  "native (PDict d) \<Longrightarrow> native dflt \<Longrightarrow> native (dict_get d k dflt)"
  by (auto simp: dict_get_def split: option.splits dest!: map_of_SomeD)

lemma native_compact_document:
  assumes "native (PDict d)" "native (PDict jt)" "native (PDict q)" "native (PDict t)"
  shows "native (PDict (compact_document d jt q t n nq))"
proof -
  have g: "native (dict_get d k (PList []))" "native (dict_get d k (PDict []))" for k
    using assms(1) by (simp_all add: native_dict_get)
  have gt: "native (dict_get t k (PDict []))" for k
    using assms(4) by (simp add: native_dict_get)
  have keys: "native (PList (map key_val (dict_keys jt)))"
  proof -
    have "native (key_val k)" if "k \<in> set (dict_keys jt)" for k
    proof -
      from that assms(2) have "is_KStr k" by (auto simp: dict_keys_def)
      then show ?thesis by (cases k) auto
    qed
    then show ?thesis by simp
  qed
  show ?thesis
    using assms(2,3) g gt keys by (simp add: compact_document_def del: native.simps(2))
       (simp add: compact_document_def)
qed

lemma dump_is_object: "json_dump (PDict d) = Some j \<Longrightarrow> \<exists>items. j = JObj items"
  by auto

lemma load_object: "\<exists>d. json_load (JObj items) = PDict d"
  by simp


lemma compact_data_InrD: "compact_data x = Inr c \<Longrightarrow> \<exists>d. x = PDict d"
  by (cases x) (simp_all add: compact_data_def)

lemma compact_reloaded:
  assumes c: "compact_data (json_load j) = Inr c" and cj: "json_dump c = Some cj"
  shows "\<exists>full jt q t n nq. json_load j = PDict full \<and>
           dict_get full (KStr ''job_translations'') (PDict []) = PDict jt \<and>
           dict_get full (KStr ''questions'') (PDict []) = PDict q \<and>
           dict_get full (KStr ''translations'') (PDict []) = PDict t \<and>
           py_len (dict_get jt (KStr ''en'') (PList [])) = Inr n \<and>
           py_len (dict_get q (KStr ''en'') (PList [])) = Inr nq \<and>
           json_load cj = PDict (compact_document full jt q t n nq)"
proof -
  from compact_data_InrD [OF c] obtain full where full: "json_load j = PDict full" by blast
  from c obtain jt q t n nq where r:
    "dict_get full (KStr ''job_translations'') (PDict []) = PDict jt"
    "dict_get full (KStr ''questions'') (PDict []) = PDict q"
    "dict_get full (KStr ''translations'') (PDict []) = PDict t"
    "py_len (dict_get jt (KStr ''en'') (PList [])) = Inr n"
    "py_len (dict_get q (KStr ''en'') (PList [])) = Inr nq"
    "c = PDict (compact_document full jt q t n nq)"
    unfolding full compact_data_PDict by blast
  have nf: "native (PDict full)" using json_load_native [of j] by (simp add: full)
  have e: "native (PDict [])" by simp
  have "native (PDict jt)" "native (PDict q)" "native (PDict t)"
    using native_dict_get [OF nf e, of "KStr ''job_translations''"]
      native_dict_get [OF nf e, of "KStr ''questions''"]
      native_dict_get [OF nf e, of "KStr ''translations''"] r(1-3) by simp_all
  then have "native c" unfolding r(6) using nf by (rule native_compact_document [rotated 1])
  then have "json_load cj = c" using native_roundtrip [of c] cj by auto
  with full r show ?thesis by blast
qed

lemma compact_document_items:
  assumes k: "k \<in> set whitelist"
    and jt: "dict_get d (KStr ''job_translations'') (PDict []) = PDict jt"
    and q: "dict_get d (KStr ''questions'') (PDict []) = PDict q"
    and present: "KStr k \<in> set (dict_keys d)"
  shows "dict_item (compact_document d jt q t n nq) (KStr k) = dict_item d (KStr k)"
proof -
  from k have "k = ''job_translations'' \<or> k = ''job_codes'' \<or> k = ''scaled_features'' \<or>
      k = ''pca_weights'' \<or> k = ''questions'' \<or> k = ''mean_norms'' \<or> k = ''sd_norms'' \<or>
      k = ''weights'' \<or> k = ''scaler_params''"
    by (simp add: whitelist_def)
  then have "\<exists>dflt. dict_item (compact_document d jt q t n nq) (KStr k) =
          Inr (dict_get d (KStr k) dflt)"
  proof (elim disjE)
    assume "k = ''job_translations''"
    then show ?thesis using jt by (simp add: compact_document_def dict_item_def) metis
  next
    assume "k = ''questions''"
    then show ?thesis using q by (simp add: compact_document_def dict_item_def) metis
  qed (simp_all add: compact_document_def dict_item_def, blast+)
  then show ?thesis using dict_item_present [OF present] by auto
qed

lemma compact_document_translations:
  "dict_item (compact_document d jt q t n nq) (KStr ''translations'') =
     Inr (PDict [(KStr ''trait_names'', dict_get t (KStr ''trait_names'') (PDict [])),
                 (KStr ''disclaimer'', dict_get t (KStr ''disclaimer'') (PDict []))])"
  by (simp add: compact_document_def dict_item_def)

section \<open>The report after writing\<close>

lemma all_len_eq_ok:
  "(\<forall>v \<in> set vs. \<exists>m. py_len v = Inr m) \<Longrightarrow>
   all_len_eq vs n = Inr (\<forall>v \<in> set vs. py_len v = Inr n)"
  by (induction vs) auto

lemma py_slice_Inl: "py_slice v n = Inl err \<Longrightarrow> err = TypeError"
  by (cases v) auto

lemma document_gets:
  "dict_get (document e tr q nq sp n) (KStr ''job_translations'') dflt =
     PDict (map (\<lambda>l. (KStr l, job_value e l)) languages)"
  "dict_get (document e tr q nq sp n) (KStr ''job_codes'') dflt =
     payload (np_tolist e ''job_codes.npy'') (PList [])"
  "dict_get (document e tr q nq sp n) (KStr ''scaled_features'') dflt =
     payload (np_tolist e ''scaled_job_features.npy'') (PList [])"
  by (simp_all add: document_def dict_get_def)

lemma examples_loop_document:
  assumes "set langs \<subseteq> set languages"
  shows "examples_loop (document e tr q nq sp n) langs =
     (if \<forall>l \<in> set langs. \<exists>s. py_slice (job_value e l) 3 = Inr s then Inr () else Inl TypeError)"
  using assms
proof (induction langs)
  case Nil
  then show ?case by simp
next
  case (Cons l langs)
  then have l: "l \<in> set languages" and rest: "set langs \<subseteq> set languages" by auto
  have present: "KStr l \<in> set (dict_keys (map (\<lambda>l. (KStr l, job_value e l)) languages))"
    using l by (simp add: dict_keys_languages)
  have item: "dict_item (map (\<lambda>l. (KStr l, job_value e l)) languages) (KStr l) = Inr (job_value e l)"
    using l by (rule dict_item_languages)
  show ?case
  proof (cases "py_slice (job_value e l) 3")
    case (Inl err)
    then have "err = TypeError" by (rule py_slice_Inl)
    with Inl show ?thesis
      using present item by (auto simp: document_gets document_items)
  next
    case (Inr s)
    then show ?thesis
      using present item Cons.IH [OF rest] by (simp add: document_gets document_items)
  qed
qed

lemma codes_ok_len: "codes_ok e \<Longrightarrow> \<exists>m. py_len (payload (np_tolist e ''job_codes.npy'') (PList [])) = Inr m"
  by (auto simp: codes_ok_def payload_def split: sum.splits)

lemma features_ok_len:
  "features_ok e \<Longrightarrow> \<exists>m. py_len (payload (np_tolist e ''scaled_job_features.npy'') (PList [])) = Inr m"
  by (auto simp: features_ok_def payload_def split: sum.splits)

lemma report_document:
  assumes jobs: "\<forall>l \<in> set languages. job_ok e l" and codes: "codes_ok e"
    and features: "features_ok e" and n: "py_len (job_value e ''en'') = Inr n"
  shows "\<exists>b c f. report (document e tr q nq sp n) =
     ([ValidJobTranslations b, ValidJobCodes c, ValidScaledFeatures f],
      if samples_ok e then Inr () else Inl TypeError)"
proof -
  let ?cd = "document e tr q nq sp n"
  let ?jt = "map (\<lambda>l. (KStr l, job_value e l)) languages"
  obtain mc where mc: "py_len (payload (np_tolist e ''job_codes.npy'') (PList [])) = Inr mc"
    using codes_ok_len [OF codes] by blast
  obtain mf where mf: "py_len (payload (np_tolist e ''scaled_job_features.npy'') (PList [])) = Inr mf"
    using features_ok_len [OF features] by blast
  have vals: "\<forall>v \<in> set (dict_values ?jt). \<exists>m. py_len v = Inr m"
    using jobs job_ok_len by (auto simp: dict_values_def)
  have v: "validation ?cd n =
     ([ValidJobTranslations (\<forall>v \<in> set (dict_values ?jt). py_len v = Inr n),
       ValidJobCodes (mc = n), ValidScaledFeatures (mf = n)], Inr ())"
    by (simp add: validation_def document_gets all_len_eq_ok [OF vals] mc mf
          then_out_def quiet_def say_def)
  have ex: "examples_loop ?cd [''en'', ''zh'', ''es'', ''fr'', ''ru'', ''ar''] =
     (if samples_ok e then Inr () else Inl TypeError)"
  proof -
    have "examples_loop ?cd languages = (if samples_ok e then Inr () else Inl TypeError)"
      using examples_loop_document [of languages e tr q nq sp n]
      by (simp add: samples_ok_def)
    then show ?thesis unfolding languages_def .
  qed
  have "report ?cd =
     ([ValidJobTranslations (\<forall>v \<in> set (dict_values ?jt). py_len v = Inr n),
       ValidJobCodes (mc = n), ValidScaledFeatures (mf = n)],
      if samples_ok e then Inr () else Inl TypeError)"
    unfolding report_def
    by (simp add: document_gets dict_get_languages_en n mf v ex then_out_def quiet_def
          del: examples_loop.simps)
  then show ?thesis by blast
qed

section \<open>What the question loader returns\<close>

lemma load_questions_no_en:
  assumes "read_csv e ''questions.tsv'' = Inr df" and "''en'' \<notin> set (columns df)"
  shows "snd (load_questions e) = Inl KeyError"
  using assms df_col_Inl [of "''en''" df]
  by (simp add: load_questions_def languages_def split: prod.splits)

lemma question_column_native:
  "\<exists>ss. question_column df name = PList (map PStr ss) \<and>
        (name \<in> set (columns df) \<longrightarrow> length ss = length (rows df))"
proof (cases "name \<in> set (columns df)")
  case True
  then obtain c where "df_col df name = Inr c" "length c = length (rows df)"
    using df_col_Inr by blast
  then show ?thesis
    by (auto simp: question_column_def str_tolist_def astype_str_def fillna_def
          intro!: exI [of _ "map cell_str (map (\<lambda>c. if is_nan c then CStr [] else c) c)"])
next
  case False
  then show ?thesis
    by (auto simp: question_column_def df_col_Inl intro: exI [of _ "[]"])
qed

lemma load_questions_Inr:
  assumes "load_questions e = (out, Inr (q, nq))"
  shows "(q = PDict [] \<and> nq = 0 \<and> read_csv e ''questions.tsv'' = Inl FileNotFoundError) \<or>
         (\<exists>df. read_csv e ''questions.tsv'' = Inr df \<and> ''en'' \<in> set (columns df) \<and>
            q = PDict (map (\<lambda>l. (KStr l, question_column df (question_source df l))) languages) \<and>
            nq = length (rows df))"
proof (cases "read_csv e ''questions.tsv''")
  case (Inl err)
  then show ?thesis using assms by (cases err) (auto simp: load_questions_def)
next
  case (Inr df)
  show ?thesis
  proof (cases "''en'' \<in> set (columns df)")
    case True
    from load_questions_ok [OF Inr True] assms Inr True show ?thesis by auto
  next
    case False
    from load_questions_no_en [OF Inr False] assms show ?thesis by simp
  qed
qed

lemma load_questions_native:
  assumes "load_questions e = (out, Inr (q, nq))"
  shows "native q \<and> (\<exists>qd. q = PDict qd \<and> py_len (dict_get qd (KStr ''en'') (PList [])) = Inr nq)"
proof -
  from load_questions_Inr [OF assms] show ?thesis
  proof
    assume "q = PDict [] \<and> nq = 0 \<and> read_csv e ''questions.tsv'' = Inl FileNotFoundError"
    then show ?thesis by (simp add: dict_get_def)
  next
    assume "\<exists>df. read_csv e ''questions.tsv'' = Inr df \<and> ''en'' \<in> set (columns df) \<and>
            q = PDict (map (\<lambda>l. (KStr l, question_column df (question_source df l))) languages) \<and>
            nq = length (rows df)"
    then obtain df where df: "''en'' \<in> set (columns df)"
      "q = PDict (map (\<lambda>l. (KStr l, question_column df (question_source df l))) languages)"
      "nq = length (rows df)" by blast
    have nat: "native (question_column df name)" for name
      using question_column_native [of df name] by auto
    have "native q" unfolding df(2) using nat by (simp add: comp_def) (simp add: languages_def)
    moreover have "py_len (question_column df ''en'') = Inr nq"
      using question_column_native [of df "''en''"] df(1,3) by auto
    then have "py_len (dict_get (map (\<lambda>l. (KStr l, question_column df (question_source df l)))
                 languages) (KStr ''en'') (PList [])) = Inr nq"
      using df(1) by (simp add: dict_get_languages_en question_source_def)
    ultimately show ?thesis using df(2) by blast
  qed
qed

section \<open>The full document read back\<close>

lemma reload_str_dict:
  assumes "json_dump (PDict d) \<noteq> None" and "\<forall>kv \<in> set d. is_KStr (fst kv)"
    and "distinct (map fst d)"
  shows "reload (PDict d) = PDict (map (\<lambda>kv. (fst kv, reload (snd kv))) d)"
    and "\<forall>kv \<in> set d. json_dump (snd kv) \<noteq> None"
proof -
  from assms(1) obtain j where j: "json_dump (PDict d) = Some j" by blast
  from dump_load_str_dict [OF j assms(2,3)]
  show "reload (PDict d) = PDict (map (\<lambda>kv. (fst kv, reload (snd kv))) d)"
    and "\<forall>kv \<in> set d. json_dump (snd kv) \<noteq> None"
    by (simp_all add: reload_def j del: json_dump.simps)
qed

lemma py_len_reload:
  assumes "json_dump v \<noteq> None" and "py_len v = Inr n"
  shows "\<exists>m. py_len (reload v) = Inr m"
proof -
  from assms(1) obtain j where j: "json_dump v = Some j" by blast
  show ?thesis using assms(2) j by (cases v) (auto simp: reload_def)
qed

lemma document_keys:
  "\<forall>kv \<in> set (document e tr q nq sp n). is_KStr (fst kv)"
  "distinct (map fst (document e tr q nq sp n))"
  by (simp_all add: document_def)

lemma languages_keys:
  "\<forall>kv \<in> set (map (\<lambda>l. (KStr l, f l)) languages). is_KStr (fst kv)"
  "distinct (map fst (map (\<lambda>l. (KStr l, f l)) languages))"
  by (simp_all add: languages_def)

lemma translation_texts_form:
  "get_translation_texts tx =
     PDict (map (\<lambda>key. (KStr key, PDict (map (\<lambda>lang. (KStr lang, tx key lang)) languages)))
              text_keys)"
proof -
  have inner: "dict_display (map (\<lambda>lang. (KStr lang, tx key lang)) languages) =
           map (\<lambda>lang. (KStr lang, tx key lang)) languages" for key
    by (rule dict_display_distinct) (simp add: languages_def)
  have outer: "dict_display (map (\<lambda>key. (KStr key, f key)) text_keys) =
           map (\<lambda>key. (KStr key, f key)) text_keys" for f :: "string \<Rightarrow> pyval"
    by (rule dict_display_distinct) (simp add: text_keys_def)
  show ?thesis by (simp add: get_translation_texts_def inner outer)
qed

lemma text_keys_keys:
  "\<forall>kv \<in> set (map (\<lambda>key. (KStr key, f key)) text_keys). is_KStr (fst kv)"
  "distinct (map fst (map (\<lambda>key. (KStr key, f key)) text_keys))"
  by (simp_all add: text_keys_def)

lemma document_more_items:
  "dict_item (document e tr q nq sp n) (KStr ''translations'') = Inr tr"
  "dict_item (document e tr q nq sp n) (KStr ''job_names'') = Inr (job_value e ''en'')"
  by (simp_all add: document_def dict_item_def)

lemma dict_item_set:
  "dict_item d k = Inr v \<Longrightarrow> (k, v) \<in> set d"
  by (auto simp: dict_item_def split: option.splits dest: map_of_SomeD)

lemma loaded_document:
  assumes dump: "json_dump (PDict (document e tr q nq sp n)) = Some j"
  shows "json_load j = PDict (map (\<lambda>kv. (fst kv, reload (snd kv))) (document e tr q nq sp n))"
    and "\<And>k v. dict_item (document e tr q nq sp n) k = Inr v \<Longrightarrow> json_dump v \<noteq> None"
proof -
  note r = dump_load_str_dict [OF dump document_keys]
  show "json_load j = PDict (map (\<lambda>kv. (fst kv, reload (snd kv))) (document e tr q nq sp n))"
    by (rule r(1))
  show "json_dump v \<noteq> None" if "dict_item (document e tr q nq sp n) k = Inr v" for k v
    using r(2) dict_item_set [OF that] by force
qed

lemma compact_of_document:
  assumes dump: "json_dump (PDict (document e (get_translation_texts tx) q nq sp n)) = Some j"
    and q: "native q" "q = PDict qd" "py_len (dict_get qd (KStr ''en'') (PList [])) = Inr nq"
    and n: "py_len (job_value e ''en'') = Inr n"
  shows "\<exists>t m. json_load j = PDict (reloaded (document e (get_translation_texts tx) q nq sp n)) \<and>
     dict_get (reloaded (document e (get_translation_texts tx) q nq sp n))
        (KStr ''translations'') (PDict []) = PDict t \<and>
     py_len (reload (job_value e ''en'')) = Inr m \<and>
     compact_data (json_load j) =
       Inr (PDict (compact_document (reloaded (document e (get_translation_texts tx) q nq sp n))
              (reloaded (map (\<lambda>l. (KStr l, job_value e l)) languages)) qd t m nq))"
proof -
  let ?cd = "document e (get_translation_texts tx) q nq sp n"
  let ?jt = "map (\<lambda>l. (KStr l, job_value e l)) languages"
  let ?tr = "map (\<lambda>key. (KStr key, PDict (map (\<lambda>lang. (KStr lang, tx key lang)) languages)))
              text_keys"
  note ld = loaded_document [OF dump]
  have full: "json_load j = PDict (reloaded ?cd)" using ld(1) by (simp add: reloaded_def)
  have djt: "json_dump (PDict ?jt) \<noteq> None" by (rule ld(2)) (rule document_items(1))
  have dtr: "json_dump (PDict ?tr) \<noteq> None"
    using ld(2) [OF document_more_items(1)] unfolding translation_texts_form .
  note rjt = reload_str_dict [OF djt languages_keys]
  note rtr = reload_str_dict [OF dtr text_keys_keys]
  have f1: "dict_get (reloaded ?cd) (KStr ''job_translations'') (PDict []) = PDict (reloaded ?jt)"
    unfolding reloaded_def dict_get_reload_map document_items using rjt(1) by simp
  have f2: "dict_get (reloaded ?cd) (KStr ''questions'') (PDict []) = PDict qd"
    unfolding reloaded_def dict_get_reload_map document_items using q(1,2) reload_native by simp
  have f3: "dict_get (reloaded ?cd) (KStr ''translations'') (PDict []) = PDict (reloaded ?tr)"
    unfolding reloaded_def dict_get_reload_map document_more_items
    using rtr(1) by (simp add: translation_texts_form del: json_dump.simps)
  have en: "dict_get (reloaded ?jt) (KStr ''en'') (PList []) = reload (job_value e ''en'')"
    unfolding reloaded_def dict_get_reload_map
    by (simp add: languages_def dict_item_def)
  have "json_dump (job_value e ''en'') \<noteq> None"
    using rjt(2) by (simp add: languages_def)
  from py_len_reload [OF this n] obtain m where m: "py_len (reload (job_value e ''en'')) = Inr m"
    by blast
  have "compact_data (PDict (reloaded ?cd)) =
          Inr (PDict (compact_document (reloaded ?cd) (reloaded ?jt) qd (reloaded ?tr) m nq))"
    unfolding compact_data_PDict using f1 f2 f3 en m q(3) by auto
  then show ?thesis using full f3 m by auto
qed

lemma compact_native:
  assumes c: "compact_data (json_load j) = Inr c"
  shows "native c"
proof -
  from compact_data_InrD [OF c] obtain full where full: "json_load j = PDict full" by blast
  from c obtain jt q t n nq where r:
    "dict_get full (KStr ''job_translations'') (PDict []) = PDict jt"
    "dict_get full (KStr ''questions'') (PDict []) = PDict q"
    "dict_get full (KStr ''translations'') (PDict []) = PDict t"
    "c = PDict (compact_document full jt q t n nq)"
    unfolding full compact_data_PDict by blast
  have nf: "native (PDict full)" using json_load_native [of j] by (simp add: full)
  have e: "native (PDict [])" by simp
  have "native (PDict jt)" "native (PDict q)" "native (PDict t)"
    using native_dict_get [OF nf e, of "KStr ''job_translations''"]
      native_dict_get [OF nf e, of "KStr ''questions''"]
      native_dict_get [OF nf e, of "KStr ''translations''"] r(1-3) by simp_all
  then show "native c" unfolding r(4) using nf by (rule native_compact_document [rotated 1])
qed

lemma main_completes:
  assumes a: "assemble tx e = (o1, Inr cd)" and w1: "can_write e output_file"
    and w2: "can_write e compact_file" and dump: "json_dump (PDict cd) = Some j"
    and s: "samples_ok e"
  shows "\<exists>o2 c cj. compact_data (json_load j) = Inr c \<and> json_dump c = Some cj \<and>
           report cd = (o2, Inr ()) \<and>
           main tx e files =
             (files(output_file \<mapsto> Json j, compact_file \<mapsto> Json cj),
              o1 @ o2 @ [CreatingCompact, CompactSaved, AllComplete])"
proof -
  from a obtain q nq sp n where ok: "\<forall>l \<in> set languages. job_ok e l" "codes_ok e" "features_ok e"
    and lq: "load_questions e = (o1, Inr (q, nq))"
    and n: "py_len (job_value e ''en'') = Inr n"
    and cd: "cd = document e (get_translation_texts tx) q nq sp n"
    unfolding assemble_iff by blast
  from report_document [OF ok n, of "get_translation_texts tx" q nq sp] s
  obtain o2 where rep: "report cd = (o2, Inr ())" unfolding cd by auto
  from load_questions_native [OF lq] obtain qd where q: "native q" "q = PDict qd"
    "py_len (dict_get qd (KStr ''en'') (PList [])) = Inr nq" by blast
  from compact_of_document [OF dump [unfolded cd] q n]
  obtain c where c: "compact_data (json_load j) = Inr c" by blast
  from native_roundtrip [OF compact_native [OF c]] obtain cj where cj: "json_dump c = Some cj"
    by blast
  have "main tx e files = (files(output_file \<mapsto> Json j, compact_file \<mapsto> Json cj),
              o1 @ o2 @ [CreatingCompact, CompactSaved, AllComplete]) \<and>
        completed (o1 @ o2 @ [CreatingCompact, CompactSaved, AllComplete])"
    unfolding main_completed_iff using a w1 w2 dump rep c cj by blast
  with c cj rep show ?thesis by blast
qed

lemma demo_samples_ok: "samples_ok demo_env"
  by (simp add: samples_ok_def languages_def job_value_def payload_def demo_env_def job_path_def)

lemma demo_norms_value:
  "norms_value demo_env ''meanNorms.tsv'' = PDict [(KInt 1, PList [PInt 50, PInt 10])]"
  "norms_value demo_env ''sdNorms.tsv'' = PDict []"
  "weights_value demo_env = PList []"
  by (simp_all add: norms_value_def weights_value_def demo_env_def demo_norms_def row_item_def
        cell_at_def payload_def row_tail_def dict_set_def upt_rec)

section \<open>When the document can be serialised\<close>

lemma native_dumpable: "native v \<Longrightarrow> dumpable v"
  using native_roundtrip [of v] by (auto simp: dumpable_def)

lemma dumpable_str_dict:
  assumes "\<forall>kv \<in> set d. is_KStr (fst kv)"
  shows "dumpable (PDict d) \<longleftrightarrow> (\<forall>kv \<in> set d. dumpable (snd kv))"
proof
  assume "dumpable (PDict d)"
  then obtain items where "those_items (map (\<lambda>(k, v). (key_str k, json_dump v)) d) = Some items"
    by (auto simp: dumpable_def)
  from those_items_SomeD [OF this] show "\<forall>kv \<in> set d. dumpable (snd kv)"
    by (fastforce simp: dumpable_def)
next
  assume r: "\<forall>kv \<in> set d. dumpable (snd kv)"
  have "\<forall>kv \<in> set d. \<exists>s j. key_str (fst kv) = Some s \<and> json_dump (snd kv) = Some j"
  proof
    fix kv assume kv: "kv \<in> set d"
    with assms have "is_KStr (fst kv)" by blast
    then obtain s where "key_str (fst kv) = Some s" by (cases "fst kv") auto
    moreover from r kv obtain j where "json_dump (snd kv) = Some j" by (auto simp: dumpable_def)
    ultimately show "\<exists>s j. key_str (fst kv) = Some s \<and> json_dump (snd kv) = Some j" by blast
  qed
  from those_items_Some [OF this] show "dumpable (PDict d)" by (simp add: dumpable_def)
qed

lemma norm_groups_dumpable: "dumpable norm_groups"
  by (simp add: dumpable_def norm_groups_def norm_group_def dict_display_def dict_set_def)

lemma metadata_native: "native (PDict (metadata e n nq))"
  by (simp add: metadata_def languages_def)

lemma document_dumpable_iff:
  "dumpable (PDict (document e tr q nq sp n)) \<longleftrightarrow>
     dumpable (PDict (map (\<lambda>l. (KStr l, job_value e l)) languages)) \<and>
     dumpable (payload (np_tolist e ''job_codes.npy'') (PList [])) \<and>
     dumpable (payload (np_tolist e ''pca_weights.npy'') (PList [])) \<and>
     dumpable (payload (np_tolist e ''scaled_job_features.npy'') (PList [])) \<and>
     dumpable (job_value e ''en'') \<and>
     dumpable (payload (np_item e ''text_dict.npy'') (PDict [])) \<and>
     dumpable (payload (np_item e ''language_display.npy'') (PDict [])) \<and>
     dumpable q \<and>
     dumpable (norms_value e ''meanNorms.tsv'') \<and>
     dumpable (norms_value e ''sdNorms.tsv'') \<and>
     dumpable (weights_value e) \<and>
     dumpable sp \<and>
     dumpable tr"
  unfolding dumpable_str_dict [OF document_keys(1)]
  using native_dumpable [OF metadata_native, of e n nq] norm_groups_dumpable
  by (auto simp: document_def)

section \<open>The sample run completes\<close>

lemma demo_translations_native: "native (get_translation_texts demo_txt)"
  unfolding translation_texts_form
  by (simp add: text_keys_def languages_def demo_txt_def)

lemma demo_payloads:
  "payload (np_tolist demo_env ''job_codes.npy'') (PList []) = PList [PInt 11, PInt 12]"
  "payload (np_tolist demo_env ''pca_weights.npy'') (PList []) = PList []"
  "payload (np_tolist demo_env ''scaled_job_features.npy'') (PList []) = PList []"
  "payload (np_item demo_env ''text_dict.npy'') (PDict []) = PDict []"
  "payload (np_item demo_env ''language_display.npy'') (PDict []) = PDict []"
  by (simp_all add: payload_def demo_env_def)

lemma demo_job_values:
  "map (\<lambda>l. (KStr l, job_value demo_env l)) languages =
     [(KStr ''en'', PList [PStr ''Actor'', PStr ''Baker'']),
      (KStr ''zh'', PList [PStr ''Yanyuan'', PStr ''Mianbaoshi'']),
      (KStr ''es'', PList []), (KStr ''fr'', PList []),
      (KStr ''ru'', PList []), (KStr ''ar'', PList [])]"
  by (simp add: languages_def job_value_def payload_def demo_env_def job_path_def)

lemma demo_dumpable: "dumpable (PDict demo_document)"
  unfolding demo_document_def document_dumpable_iff demo_payloads demo_job_values demo_norms_value
    demo_job_value
  using native_dumpable [OF demo_translations_native]
  by (simp add: dumpable_def)

lemma demo_main:
  "\<exists>j cj c o2. json_dump (PDict demo_document) = Some j \<and>
      compact_data (json_load j) = Inr c \<and> json_dump c = Some cj \<and>
      main demo_txt demo_env Map.empty =
        ([output_file \<mapsto> Json j, compact_file \<mapsto> Json cj],
         fst (load_questions demo_env) @ o2 @ [CreatingCompact, CompactSaved, AllComplete])"
proof -
  from demo_dumpable obtain j where j: "json_dump (PDict demo_document) = Some j"
    by (auto simp: dumpable_def)
  have w: "can_write demo_env output_file" "can_write demo_env compact_file"
    by (simp_all add: demo_env_def)
  from main_completes [OF demo_assemble w j demo_samples_ok, of Map.empty] j
  show ?thesis by blast
qed

section \<open>Both files of a completed run\<close>

lemma create_compact_version_saved_iff:
  "create_compact_version e files = (files', [CreatingCompact, CompactSaved]) \<longleftrightarrow>
     (\<exists>j c cj. files ''app_data_complete.json'' = Some (Json j) \<and>
        compact_data (json_load j) = Inr c \<and> can_write e compact_file \<and>
        json_dump c = Some cj \<and> files' = files(compact_file \<mapsto> Json cj))"
proof (cases "files ''app_data_complete.json''")
  case None
  then show ?thesis by (simp add: create_compact_version_def read_json_def)
next
  case (Some f)
  show ?thesis
  proof (cases f)
    case Truncated
    then show ?thesis using Some by (simp add: create_compact_version_def read_json_def)
  next
    case (Json j)
    then have rj: "read_json files ''app_data_complete.json'' = Inr (json_load j)"
      using Some by (simp add: read_json_def)
    show ?thesis
    proof (cases "compact_data (json_load j)")
      case (Inl err)
      then show ?thesis using rj Some Json by (simp add: create_compact_version_def)
    next
      case (Inr c)
      obtain f2 w where w: "write_json e files compact_file c = (f2, w)"
        by (cases "write_json e files compact_file c")
      show ?thesis
      proof (cases w)
        case (Inl err)
        then show ?thesis
          using rj Some Json Inr w write_json_Inr_iff [of e files compact_file c]
          by (auto simp: create_compact_version_def)
      next
        case wr: (Inr u)
        then show ?thesis
          using rj Some Json Inr w write_json_Inr_iff [of e files compact_file c f2 u]
          by (auto simp: create_compact_version_def)
      qed
    qed
  qed
qed

lemma completed_run:
  assumes m: "main tx e files = (files', out)" and c: "completed out"
  shows "\<exists>o1 q nq sp n qd t m j cj.
     assemble tx e = (o1, Inr (document e (get_translation_texts tx) q nq sp n)) \<and>
     load_questions e = (o1, Inr (q, nq)) \<and> q = PDict qd \<and> native q \<and>
     py_len (dict_get qd (KStr ''en'') (PList [])) = Inr nq \<and>
     py_len (job_value e ''en'') = Inr n \<and>
     py_len (reload (job_value e ''en'')) = Inr m \<and>
     files' = files(output_file \<mapsto> Json j, compact_file \<mapsto> Json cj) \<and>
     json_dump (PDict (document e (get_translation_texts tx) q nq sp n)) = Some j \<and>
     json_load j = PDict (reloaded (document e (get_translation_texts tx) q nq sp n)) \<and>
     json_load cj = PDict (compact_document
        (reloaded (document e (get_translation_texts tx) q nq sp n))
        (reloaded (map (\<lambda>l. (KStr l, job_value e l)) languages)) qd t m nq)"
proof -
  from m c obtain o1 cd j o2 cc cj where r:
    "assemble tx e = (o1, Inr cd)" "json_dump (PDict cd) = Some j"
    "compact_data (json_load j) = Inr cc" "json_dump cc = Some cj"
    "files' = files(output_file \<mapsto> Json j, compact_file \<mapsto> Json cj)"
    using main_completed_iff [of tx e files files' out] by blast
  from r(1) obtain q nq sp n where lq: "load_questions e = (o1, Inr (q, nq))"
    and n: "py_len (job_value e ''en'') = Inr n"
    and cd: "cd = document e (get_translation_texts tx) q nq sp n"
    unfolding assemble_iff by blast
  from load_questions_native [OF lq] obtain qd where q: "native q" "q = PDict qd"
    "py_len (dict_get qd (KStr ''en'') (PList [])) = Inr nq" by blast
  from compact_of_document [OF r(2) [unfolded cd] q n] obtain t m where k:
    "json_load j = PDict (reloaded (document e (get_translation_texts tx) q nq sp n))"
    "py_len (reload (job_value e ''en'')) = Inr m"
    "compact_data (json_load j) =
       Inr (PDict (compact_document (reloaded (document e (get_translation_texts tx) q nq sp n))
              (reloaded (map (\<lambda>l. (KStr l, job_value e l)) languages)) qd t m nq))"
    by blast
  from k(3) r(3) have cc: "cc = PDict (compact_document
        (reloaded (document e (get_translation_texts tx) q nq sp n))
        (reloaded (map (\<lambda>l. (KStr l, job_value e l)) languages)) qd t m nq)" by simp
  have "json_load cj = cc"
    using native_roundtrip [OF compact_native [OF r(3)]] r(4) by auto
  with cc r(1,2,5) lq q n k(1,2) cd show ?thesis by blast
qed

lemma files_written:
  "(files(output_file \<mapsto> a, compact_file \<mapsto> b)) output_file = Some a"
  "(files(output_file \<mapsto> a, compact_file \<mapsto> b)) compact_file = Some b"
  by (simp_all add: output_file_def compact_file_def)

lemma dict_item_get:
  "dict_item d k = Inr v \<Longrightarrow> dict_get d k dflt = v"
  by (simp add: dict_item_def dict_get_def split: option.splits)

text \<open>
  C3. In a run that writes both files, the compact document is computed from the value
  read back from the full file (\<open>compact_data (json_load j)\<close>), and read back itself it
  agrees with the full file on every whitelisted top-level field the full file has, and
  on \<open>trait_names\<close> and \<open>disclaimer\<close> inside \<open>translations\<close>. Equality is equality of
  the JSON values.
\<close>

theorem compact_fields_equal_full:
  assumes m: "main tx e files = (files', out)" and c: "completed out"
  shows "\<exists>j cj cdat full compact.
     files' output_file = Some (Json j) \<and> files' compact_file = Some (Json cj) \<and>
     compact_data (json_load j) = Inr cdat \<and> json_dump cdat = Some cj \<and>
     json_load j = PDict full \<and> json_load cj = PDict compact \<and>
     (\<forall>k \<in> set whitelist. KStr k \<in> set (dict_keys full) \<longrightarrow>
        dict_item compact (KStr k) = dict_item full (KStr k)) \<and>
     (\<forall>k \<in> set [''trait_names'', ''disclaimer'']. \<forall>t.
        dict_item full (KStr ''translations'') = Inr (PDict t) \<longrightarrow>
        KStr k \<in> set (dict_keys t) \<longrightarrow>
        and_then (dict_item compact (KStr ''translations'')) (\<lambda>x. py_item x k) =
          dict_item t (KStr k))"
proof -
  from m c obtain j cdat cj where r:
    "compact_data (json_load j) = Inr cdat" "json_dump cdat = Some cj"
    "files' = files(output_file \<mapsto> Json j, compact_file \<mapsto> Json cj)"
    using main_completed_iff [of tx e files files' out] by blast
  from compact_reloaded [OF r(1,2)] obtain full jt q t n nq where f:
    "json_load j = PDict full"
    "dict_get full (KStr ''job_translations'') (PDict []) = PDict jt"
    "dict_get full (KStr ''questions'') (PDict []) = PDict q"
    "dict_get full (KStr ''translations'') (PDict []) = PDict t"
    "json_load cj = PDict (compact_document full jt q t n nq)"
    by blast
  let ?compact = "compact_document full jt q t n nq"
  have top: "\<forall>k \<in> set whitelist. KStr k \<in> set (dict_keys full) \<longrightarrow>
        dict_item ?compact (KStr k) = dict_item full (KStr k)"
    using compact_document_items [OF _ f(2,3)] by blast
  have sub: "and_then (dict_item ?compact (KStr ''translations'')) (\<lambda>x. py_item x k) =
          dict_item t' (KStr k)"
    if k: "k \<in> set [''trait_names'', ''disclaimer'']"
      and t': "dict_item full (KStr ''translations'') = Inr (PDict t')"
      and present: "KStr k \<in> set (dict_keys t')" for k t'
  proof -
    from dict_item_get [OF t'] f(4) have tt: "t' = t" by simp
    from k have "dict_item [(KStr ''trait_names'', dict_get t (KStr ''trait_names'') (PDict [])),
                 (KStr ''disclaimer'', dict_get t (KStr ''disclaimer'') (PDict []))] (KStr k) =
            Inr (dict_get t (KStr k) (PDict []))"
      by (auto simp: dict_item_def)
    then show ?thesis
      using dict_item_present [OF present [unfolded tt]]
      by (simp add: compact_document_translations tt)
  qed
  show ?thesis
    using r(1,2) f(1,5) top sub files_written [of files "Json j" "Json cj"]
    unfolding r(3) by blast
qed


lemma demo_reload_norms:
  "reload (PDict [(KInt 1, PList [PInt 50, PInt 10])]) =
     PDict [(KStr ''1'', PList [PInt 50, PInt 10])]"
  by (simp add: reload_def str_of_int_def digits.simps digit_char_def dict_display_def
        dict_set_def)

lemma demo_document_mean_norms:
  "dict_item demo_document (KStr ''mean_norms'') = Inr (PDict [(KInt 1, PList [PInt 50, PInt 10])])"
  by (simp add: demo_document_def document_def dict_item_def demo_norms_value)

lemma dict_keys_reloaded: "dict_keys (reloaded d) = dict_keys d"
  by (simp add: reloaded_def dict_keys_def comp_def)

lemma dict_item_keys: "dict_item d k = Inr v \<Longrightarrow> k \<in> set (dict_keys d)"
  by (auto simp: dict_item_def dict_keys_def split: option.splits dest!: map_of_SomeD
        intro: image_eqI [where x = "(k, v)"])

theorem compact_fields_equal_full_witness:
  "\<exists>files' out j cj full compact.
     main demo_txt demo_env Map.empty = (files', out) \<and> completed out \<and>
     files' output_file = Some (Json j) \<and> files' compact_file = Some (Json cj) \<and>
     json_load j = PDict full \<and> json_load cj = PDict compact \<and>
     dict_item full (KStr ''mean_norms'') = Inr (PDict [(KStr ''1'', PList [PInt 50, PInt 10])]) \<and>
     dict_item compact (KStr ''mean_norms'') =
       Inr (PDict [(KStr ''1'', PList [PInt 50, PInt 10])]) \<and>
     dict_item demo_document (KStr ''mean_norms'') =
       Inr (PDict [(KInt 1, PList [PInt 50, PInt 10])])"
proof -
  from demo_main obtain j0 cj0 o2 where dj: "json_dump (PDict demo_document) = Some j0"
    and mm: "main demo_txt demo_env Map.empty =
        ([output_file \<mapsto> Json j0, compact_file \<mapsto> Json cj0],
         fst (load_questions demo_env) @ o2 @ [CreatingCompact, CompactSaved, AllComplete])"
    by blast
  have comp: "completed (fst (load_questions demo_env) @ o2 @ [CreatingCompact, CompactSaved, AllComplete])"
    by simp
  from compact_fields_equal_full [OF mm comp] obtain j cj full compact where t:
    "[output_file \<mapsto> Json j0, compact_file \<mapsto> Json cj0] output_file = Some (Json j)"
    "[output_file \<mapsto> Json j0, compact_file \<mapsto> Json cj0] compact_file = Some (Json cj)"
    "json_load j = PDict full" "json_load cj = PDict compact"
    "\<forall>k \<in> set whitelist. KStr k \<in> set (dict_keys full) \<longrightarrow>
        dict_item compact (KStr k) = dict_item full (KStr k)"
    by blast
  from t(1) have jj: "j = j0" by (simp add: output_file_def compact_file_def)
  have "json_load j0 = PDict (reloaded demo_document)"
    using loaded_document(1) [OF dj [unfolded demo_document_def]]
    by (simp add: reloaded_def demo_document_def)
  with t(3) jj have full: "full = reloaded demo_document" by simp
  have fm: "dict_item full (KStr ''mean_norms'') =
      Inr (PDict [(KStr ''1'', PList [PInt 50, PInt 10])])"
    unfolding full reloaded_def dict_item_reload_map
    by (simp add: demo_document_mean_norms demo_reload_norms)
  have "KStr ''mean_norms'' \<in> set (dict_keys full)" using fm by (rule dict_item_keys)
  moreover have "''mean_norms'' \<in> set whitelist" by (simp add: whitelist_def)
  ultimately have cm: "dict_item compact (KStr ''mean_norms'') = dict_item full (KStr ''mean_norms'')"
    using t(5) by blast
  from mm comp t(1-4) fm cm demo_document_mean_norms show ?thesis by metis
qed

lemma compact_document_metadata:
  "dict_item (compact_document d jt q t n nq) (KStr ''metadata'') =
     Inr (PDict [(KStr ''n_jobs'', PInt (int n)),
                 (KStr ''n_questions'', PInt (int nq)),
                 (KStr ''languages'', PList (map key_val (dict_keys jt)))])"
  by (simp add: compact_document_def dict_item_def)

lemma load_questions_count:
  assumes "load_questions e = (out, Inr (q, nq))"
  shows "(\<forall>df. read_csv e ''questions.tsv'' = Inr df \<longrightarrow> nq = length (rows df)) \<and>
         (read_csv e ''questions.tsv'' = Inl FileNotFoundError \<longrightarrow> nq = 0)"
  using load_questions_Inr [OF assms] by auto

text \<open>
  C7. The full document takes \<open>metadata.n_questions\<close> from the second result of
  \<^verbatim>\<open>load_questions\<close>, the row count of the table (0 when the file is absent). The compact
  document takes it from the length of \<open>questions.en\<close> as read back from the full file,
  whatever the file's own metadata says.
\<close>

theorem n_questions_two_derivations:
  "(\<forall>tx o1 cd. assemble tx e = (o1, Inr cd) \<longrightarrow>
      (\<exists>q nq md. load_questions e = (o1, Inr (q, nq)) \<and>
         dict_item cd (KStr ''metadata'') = Inr (PDict md) \<and>
         dict_item md (KStr ''n_questions'') = Inr (PInt (int nq)) \<and>
         (\<forall>df. read_csv e ''questions.tsv'' = Inr df \<longrightarrow> nq = length (rows df)) \<and>
         (read_csv e ''questions.tsv'' = Inl FileNotFoundError \<longrightarrow> nq = 0))) \<and>
   (\<forall>files files' j. files ''app_data_complete.json'' = Some (Json j) \<longrightarrow>
      create_compact_version e files = (files', [CreatingCompact, CompactSaved]) \<longrightarrow>
      (\<exists>cj full compact q cm len. files' compact_file = Some (Json cj) \<and>
         json_load j = PDict full \<and> json_load cj = PDict compact \<and>
         dict_get full (KStr ''questions'') (PDict []) = PDict q \<and>
         py_len (dict_get q (KStr ''en'') (PList [])) = Inr len \<and>
         dict_item compact (KStr ''metadata'') = Inr (PDict cm) \<and>
         dict_item cm (KStr ''n_questions'') = Inr (PInt (int len))))"
proof (intro conjI allI impI)
  fix tx o1 cd assume "assemble tx e = (o1, Inr cd)"
  then obtain q nq sp n where lq: "load_questions e = (o1, Inr (q, nq))"
    and cd: "cd = document e (get_translation_texts tx) q nq sp n"
    unfolding assemble_iff by blast
  from load_questions_count [OF lq] lq
  show "\<exists>q nq md. load_questions e = (o1, Inr (q, nq)) \<and>
         dict_item cd (KStr ''metadata'') = Inr (PDict md) \<and>
         dict_item md (KStr ''n_questions'') = Inr (PInt (int nq)) \<and>
         (\<forall>df. read_csv e ''questions.tsv'' = Inr df \<longrightarrow> nq = length (rows df)) \<and>
         (read_csv e ''questions.tsv'' = Inl FileNotFoundError \<longrightarrow> nq = 0)"
    unfolding cd using document_items(3) metadata_items(2) by blast
next
  fix files files' j
  assume f: "files ''app_data_complete.json'' = Some (Json j)"
    and c: "create_compact_version e files = (files', [CreatingCompact, CompactSaved])"
  from c obtain j' cdat cj where r: "files ''app_data_complete.json'' = Some (Json j')"
    "compact_data (json_load j') = Inr cdat" "json_dump cdat = Some cj"
    "files' = files(compact_file \<mapsto> Json cj)"
    unfolding create_compact_version_saved_iff by blast
  from r(1) f have jj: "j' = j" by simp
  from compact_reloaded [OF r(2,3)] obtain full jt q t n nq where k:
    "json_load j = PDict full"
    "dict_get full (KStr ''questions'') (PDict []) = PDict q"
    "py_len (dict_get q (KStr ''en'') (PList [])) = Inr nq"
    "json_load cj = PDict (compact_document full jt q t n nq)"
    unfolding jj by blast
  have "dict_item [(KStr ''n_jobs'', PInt (int n)), (KStr ''n_questions'', PInt (int nq)),
           (KStr ''languages'', PList (map key_val (dict_keys jt)))] (KStr ''n_questions'') =
        Inr (PInt (int nq))"
    by (simp add: dict_item_def)
  moreover have "files' compact_file = Some (Json cj)" by (simp add: r(4))
  ultimately show "\<exists>cj full compact q cm len. files' compact_file = Some (Json cj) \<and>
         json_load j = PDict full \<and> json_load cj = PDict compact \<and>
         dict_get full (KStr ''questions'') (PDict []) = PDict q \<and>
         py_len (dict_get q (KStr ''en'') (PList [])) = Inr len \<and>
         dict_item compact (KStr ''metadata'') = Inr (PDict cm) \<and>
         dict_item cm (KStr ''n_questions'') = Inr (PInt (int len))"
    using k compact_document_metadata by blast
qed


lemma skewed_loaded:
  "json_load skewed_full =
     PDict [(KStr ''questions'', PDict [(KStr ''en'', PList [PStr ''Q1''])]),
            (KStr ''metadata'', PDict [(KStr ''n_questions'', PInt 7)])]"
  by (simp add: skewed_full_def dict_display_def dict_set_def)

lemma skewed_compact:
  "\<exists>files' cj. create_compact_version demo_env skewed_files =
      (files', [CreatingCompact, CompactSaved]) \<and> files' compact_file = Some (Json cj)"
proof -
  have "\<exists>c. compact_data (json_load skewed_full) = Inr c"
    unfolding skewed_loaded compact_data_PDict by (simp add: dict_get_def)
  then obtain c where c: "compact_data (json_load skewed_full) = Inr c" by blast
  from native_roundtrip [OF compact_native [OF c]] obtain cj where cj: "json_dump c = Some cj"
    by blast
  have "create_compact_version demo_env skewed_files =
      (skewed_files(compact_file \<mapsto> Json cj), [CreatingCompact, CompactSaved])"
    unfolding create_compact_version_saved_iff using c cj
    by (auto simp: skewed_files_def demo_env_def)
  then show ?thesis by auto
qed

theorem n_questions_two_derivations_witness:
  "(\<exists>o1 md. assemble demo_txt demo_env = (o1, Inr demo_document) \<and>
      read_csv demo_env ''questions.tsv'' = Inr demo_questions \<and>
      length (rows demo_questions) = 2 \<and>
      dict_item demo_document (KStr ''metadata'') = Inr (PDict md) \<and>
      dict_item md (KStr ''n_questions'') = Inr (PInt 2)) \<and>
   (\<exists>files' cj compact cm. skewed_files ''app_data_complete.json'' = Some (Json skewed_full) \<and>
      json_load skewed_full =
        PDict [(KStr ''questions'', PDict [(KStr ''en'', PList [PStr ''Q1''])]),
               (KStr ''metadata'', PDict [(KStr ''n_questions'', PInt 7)])] \<and>
      create_compact_version demo_env skewed_files = (files', [CreatingCompact, CompactSaved]) \<and>
      files' compact_file = Some (Json cj) \<and> json_load cj = PDict compact \<and>
      dict_item compact (KStr ''metadata'') = Inr (PDict cm) \<and>
      dict_item cm (KStr ''n_questions'') = Inr (PInt 1))"
proof -
  note th = n_questions_two_derivations [of demo_env]
  have csv: "read_csv demo_env ''questions.tsv'' = Inr demo_questions"
    "length (rows demo_questions) = 2"
    by (simp_all add: demo_env_def demo_questions_def)
  from th demo_assemble obtain q nq md where a:
    "load_questions demo_env = (fst (load_questions demo_env), Inr (q, nq))"
    "dict_item demo_document (KStr ''metadata'') = Inr (PDict md)"
    "dict_item md (KStr ''n_questions'') = Inr (PInt (int nq))"
    by blast
  from a(1) have "nq = 2" by (simp add: demo_load_questions)
  with a(2,3) csv have part1: "\<exists>o1 md. assemble demo_txt demo_env = (o1, Inr demo_document) \<and>
      read_csv demo_env ''questions.tsv'' = Inr demo_questions \<and>
      length (rows demo_questions) = 2 \<and>
      dict_item demo_document (KStr ''metadata'') = Inr (PDict md) \<and>
      dict_item md (KStr ''n_questions'') = Inr (PInt 2)"
    using demo_assemble by auto
  have sf: "skewed_files ''app_data_complete.json'' = Some (Json skewed_full)"
    by (simp add: skewed_files_def)
  from skewed_compact obtain files' where
    cc: "create_compact_version demo_env skewed_files = (files', [CreatingCompact, CompactSaved])"
    by blast
  from th sf cc obtain cj full compact q2 cm len where b:
    "files' compact_file = Some (Json cj)" "json_load skewed_full = PDict full"
    "json_load cj = PDict compact"
    "dict_get full (KStr ''questions'') (PDict []) = PDict q2"
    "py_len (dict_get q2 (KStr ''en'') (PList [])) = Inr len"
    "dict_item compact (KStr ''metadata'') = Inr (PDict cm)"
    "dict_item cm (KStr ''n_questions'') = Inr (PInt (int len))"
    by blast
  from b(2) have full: "full = [(KStr ''questions'', PDict [(KStr ''en'', PList [PStr ''Q1''])]),
            (KStr ''metadata'', PDict [(KStr ''n_questions'', PInt 7)])]"
    by (simp add: skewed_loaded)
  from b(4) have "q2 = [(KStr ''en'', PList [PStr ''Q1''])]" by (simp add: full dict_get_def)
  with b(5) have "len = 1" by (simp add: dict_get_def)
  with b(7) have "dict_item cm (KStr ''n_questions'') = Inr (PInt 1)" by simp
  with sf cc b(1,3,6) skewed_loaded have part2:
    "\<exists>files' cj compact cm. skewed_files ''app_data_complete.json'' = Some (Json skewed_full) \<and>
      json_load skewed_full =
        PDict [(KStr ''questions'', PDict [(KStr ''en'', PList [PStr ''Q1''])]),
               (KStr ''metadata'', PDict [(KStr ''n_questions'', PInt 7)])] \<and>
      create_compact_version demo_env skewed_files = (files', [CreatingCompact, CompactSaved]) \<and>
      files' compact_file = Some (Json cj) \<and> json_load cj = PDict compact \<and>
      dict_item compact (KStr ''metadata'') = Inr (PDict cm) \<and>
      dict_item cm (KStr ''n_questions'') = Inr (PInt 1)"
    by blast
  from part1 part2 show ?thesis by (rule conjI)
qed

end
